theory Spec2Isabelle
  imports Complex_Main "HOL-Library.Sublist"
begin

section \<open>The JavaScript values the handlers work on\<close>

text \<open>
  The handlers of \<^verbatim>\<open>src/handler.js\<close> receive the fields of a parsed JSON payload and
  the parameters of a query string. They never do arithmetic on them: they only test
  \<^verbatim>\<open>typeof x === 'undefined'\<close>, compare with \<^verbatim>\<open>===\<close> and \<^verbatim>\<open>>\<close>, coerce with
  \<^verbatim>\<open>Number(x)\<close> and call \<^verbatim>\<open>toLowerCase\<close> and \<^verbatim>\<open>includes\<close>.

  A number is a binary64 value. Since no arithmetic is performed, a finite number is
  represented by the rational it denotes (both zeros by \<open>0\<close>, which \<^verbatim>\<open>===\<close> and \<^verbatim>\<open>>\<close>
  identify as well); the two infinities and NaN are values of their own.

  A value is what a field of a parsed JSON document can hold, or the absent field
  (\<^verbatim>\<open>undefined\<close>): \<^verbatim>\<open>null\<close>, a boolean, a number, a string, an array of values, or an
  object, given by its own properties as pairs of a key and a value. The handlers check
  the type of no field, so each of these can be stored.
\<close>

datatype jsnum = NaN | NegInfinity | Finite rat | PosInfinity

datatype jsval =
  JUndefined
| JNull
| JBoolean bool
| JNumber jsnum
| JString string
| JArray "jsval list"
| JObject "(string \<times> jsval) list"

text \<open>An exception thrown by the runtime while a handler runs.\<close>

datatype error = TypeError

text \<open>
  Three built-ins of the runtime are parameters of the model: \<^verbatim>\<open>String.prototype.toLowerCase\<close>
  (defined by the Unicode case tables), the conversion of a string to a number (the
  grammar of numeric literals, rounded to binary64) and the conversion of a number to a
  string (the shortest decimal that reads back as the same binary64). Every theorem
  below that has a runtime \<open>rt\<close> holds for every such triple of functions.
\<close>

record runtime =
  toLowerCase :: "string \<Rightarrow> string"
  StringToNumber :: "string \<Rightarrow> jsnum"
  NumberToString :: "jsnum \<Rightarrow> string"

text \<open>\<^verbatim>\<open>typeof v\<close>.\<close>

fun typeof :: "jsval \<Rightarrow> string" where
  "typeof JUndefined = ''undefined''"
| "typeof JNull = ''object''"
| "typeof (JBoolean b) = ''boolean''"
| "typeof (JNumber n) = ''number''"
| "typeof (JString s) = ''string''"
| "typeof (JArray xs) = ''object''"
| "typeof (JObject kvs) = ''object''"

text \<open>The values that are not arrays or objects.\<close>

fun is_primitive :: "jsval \<Rightarrow> bool" where
  "is_primitive (JArray xs) = False"
| "is_primitive (JObject kvs) = False"
| "is_primitive v = True"

text \<open>
  An object made by the JSON parser has its keys as own data properties and
  \<^verbatim>\<open>Object.prototype\<close> behind them.
\<close>

definition has_own_property :: "(string \<times> jsval) list \<Rightarrow> string \<Rightarrow> bool" where
  "has_own_property kvs k = (k \<in> set (map fst kvs))"

text \<open>
  The abstract operation ToString. An array is converted by \<^verbatim>\<open>Array.prototype.join\<close>:
  its elements, converted in turn and separated by commas, with \<^verbatim>\<open>undefined\<close> and
  \<^verbatim>\<open>null\<close> as the empty string. A parsed object is converted by the methods
  \<^verbatim>\<open>toString\<close> and \<^verbatim>\<open>valueOf\<close> it finds. An own property of either name holds a JSON
  value, which cannot be called, and is passed over; the inherited \<^verbatim>\<open>valueOf\<close> returns
  the object itself, which is no primitive value, and is passed over too; the inherited
  \<^verbatim>\<open>toString\<close> returns \<^verbatim>\<open>[object Object]\<close>. So the conversion throws when the object
  has an own property \<^verbatim>\<open>toString\<close>, and gives that string otherwise.
\<close>

fun ToString :: "runtime \<Rightarrow> jsval \<Rightarrow> error + string"
  and array_join :: "runtime \<Rightarrow> jsval list \<Rightarrow> error + string"
  and join_element :: "runtime \<Rightarrow> jsval \<Rightarrow> error + string" where
  "ToString rt JUndefined = Inr ''undefined''"
| "ToString rt JNull = Inr ''null''"
| "ToString rt (JBoolean b) = Inr (if b then ''true'' else ''false'')"
| "ToString rt (JNumber n) = Inr (NumberToString rt n)"
| "ToString rt (JString s) = Inr s"
| "ToString rt (JArray xs) = array_join rt xs"
| "ToString rt (JObject kvs) =
     (if has_own_property kvs ''toString'' then Inl TypeError
      else Inr ''[object Object]'')"
| "array_join rt [] = Inr ''''"
| "array_join rt [x] = join_element rt x"
| "array_join rt (x # y # ys) =
     (case join_element rt x of
        Inl e \<Rightarrow> Inl e
      | Inr s \<Rightarrow>
          (case array_join rt (y # ys) of
             Inl e \<Rightarrow> Inl e
           | Inr t \<Rightarrow> Inr (s @ '','' @ t)))"
| "join_element rt JUndefined = Inr ''''"
| "join_element rt JNull = Inr ''''"
| "join_element rt v = ToString rt v"

text \<open>
  The abstract operation ToPrimitive with hint \<open>number\<close>. A primitive value is returned
  as it is. For an array and for a parsed object \<^verbatim>\<open>valueOf\<close> yields no primitive value
  (see above), so the result is the one of \<^verbatim>\<open>toString\<close>: the joined elements of the
  array, \<^verbatim>\<open>[object Object]\<close> or a \<^verbatim>\<open>TypeError\<close> for the object.
\<close>

fun ToPrimitive :: "runtime \<Rightarrow> jsval \<Rightarrow> error + jsval" where
  "ToPrimitive rt (JArray xs) =
     (case array_join rt xs of Inl e \<Rightarrow> Inl e | Inr s \<Rightarrow> Inr (JString s))"
| "ToPrimitive rt (JObject kvs) =
     (if has_own_property kvs ''toString'' then Inl TypeError
      else Inr (JString ''[object Object]''))"
| "ToPrimitive rt v = Inr v"

text \<open>
  ToNumber on a primitive value. The last equation is never used: ToPrimitive returns
  no array and no object.
\<close>

fun primitive_ToNumber :: "runtime \<Rightarrow> jsval \<Rightarrow> jsnum" where
  "primitive_ToNumber rt JUndefined = NaN"
| "primitive_ToNumber rt JNull = Finite 0"
| "primitive_ToNumber rt (JBoolean b) = (if b then Finite 1 else Finite 0)"
| "primitive_ToNumber rt (JNumber n) = n"
| "primitive_ToNumber rt (JString s) = StringToNumber rt s"
| "primitive_ToNumber rt v = NaN"

text \<open>\<^verbatim>\<open>Number(v)\<close>: ToPrimitive, then ToNumber on the primitive value.\<close>

definition ToNumber :: "runtime \<Rightarrow> jsval \<Rightarrow> error + jsnum" where
  "ToNumber rt v =
     (case ToPrimitive rt v of Inl e \<Rightarrow> Inl e | Inr p \<Rightarrow> Inr (primitive_ToNumber rt p))"

text \<open>
  \<open>Number::lessThan\<close>: \<open>None\<close> is the result \<^verbatim>\<open>undefined\<close>, which a comparison with NaN
  gives. The equations are tried in the order of the steps of the language definition.
\<close>

fun num_lessThan :: "jsnum \<Rightarrow> jsnum \<Rightarrow> bool option" where
  "num_lessThan NaN y = None"
| "num_lessThan x NaN = None"
| "num_lessThan (Finite a) (Finite b) = Some (a < b)"
| "num_lessThan PosInfinity y = Some False"
| "num_lessThan x PosInfinity = Some True"
| "num_lessThan x NegInfinity = Some False"
| "num_lessThan NegInfinity y = Some True"

text \<open>\<open>Number::equal\<close>: NaN is equal to nothing, itself included.\<close>

definition num_equal :: "jsnum \<Rightarrow> jsnum \<Rightarrow> bool" where
  "num_equal x y = (x \<noteq> NaN \<and> y \<noteq> NaN \<and> x = y)"

text \<open>Strings are compared code unit by code unit; a proper prefix is smaller.\<close>

fun string_lessThan :: "string \<Rightarrow> string \<Rightarrow> bool" where
  "string_lessThan [] [] = False"
| "string_lessThan [] (y # ys) = True"
| "string_lessThan (x # xs) [] = False"
| "string_lessThan (x # xs) (y # ys) =
     (if (of_char x :: nat) < of_char y then True
      else if (of_char y :: nat) < of_char x then False
      else string_lessThan xs ys)"

text \<open>
  The relational comparison \<open>x < y\<close> of two primitive values: two strings are compared
  as strings, anything else after conversion to numbers.
\<close>

fun IsLessThan :: "runtime \<Rightarrow> jsval \<Rightarrow> jsval \<Rightarrow> bool option" where
  "IsLessThan rt (JString a) (JString b) = Some (string_lessThan a b)"
| "IsLessThan rt x y = num_lessThan (primitive_ToNumber rt x) (primitive_ToNumber rt y)"

text \<open>
  \<^verbatim>\<open>a > b\<close>: both operands are converted to primitive values, the left one first, and
  either conversion may throw; then the comparison \<open>b < a\<close>, with \<^verbatim>\<open>undefined\<close> read as
  false.
\<close>

definition js_gt :: "runtime \<Rightarrow> jsval \<Rightarrow> jsval \<Rightarrow> error + bool" where
  "js_gt rt a b =
     (case ToPrimitive rt a of
        Inl e \<Rightarrow> Inl e
      | Inr pa \<Rightarrow>
          (case ToPrimitive rt b of
             Inl e \<Rightarrow> Inl e
           | Inr pb \<Rightarrow>
               Inr (case IsLessThan rt pb pa of None \<Rightarrow> False | Some r \<Rightarrow> r)))"

text \<open>
  \<^verbatim>\<open>a === b\<close> between two fields of one parsed payload. Two arrays or objects read from
  different fields are different objects, whatever they contain, and are not equal.
\<close>

fun strict_equals :: "jsval \<Rightarrow> jsval \<Rightarrow> bool" where
  "strict_equals JUndefined JUndefined = True"
| "strict_equals JNull JNull = True"
| "strict_equals (JBoolean a) (JBoolean b) = (a = b)"
| "strict_equals (JNumber a) (JNumber b) = num_equal a b"
| "strict_equals (JString a) (JString b) = (a = b)"
| "strict_equals x y = False"

text \<open>
  \<^verbatim>\<open>v.toLowerCase()\<close>: only a string has the method. On \<^verbatim>\<open>undefined\<close> and \<^verbatim>\<open>null\<close> the
  property access throws; on a boolean, a number, an array or an object the property is
  missing or, as an own property of a parsed object, a JSON value, and the call throws.
\<close>

fun call_toLowerCase :: "runtime \<Rightarrow> jsval \<Rightarrow> error + string" where
  "call_toLowerCase rt (JString s) = Inr (toLowerCase rt s)"
| "call_toLowerCase rt v = Inl TypeError"

text \<open>\<^verbatim>\<open>s.includes(t)\<close> on two strings: \<open>t\<close> occurs in \<open>s\<close> as a contiguous run.\<close>

definition string_includes :: "string \<Rightarrow> string \<Rightarrow> bool" where
  "string_includes s t = sublist t s"

text \<open>
  The test of the name filter, \<^verbatim>\<open>v.toLowerCase().includes(w.toLowerCase())\<close>, and the
  test of the other two filters, \<^verbatim>\<open>Number(v) === Number(w)\<close>. The left operand is
  evaluated first.
\<close>

definition lowercase_includes :: "runtime \<Rightarrow> jsval \<Rightarrow> jsval \<Rightarrow> error + bool" where
  "lowercase_includes rt v w =
     (case call_toLowerCase rt v of
        Inl e \<Rightarrow> Inl e
      | Inr s \<Rightarrow>
          (case call_toLowerCase rt w of
             Inl e \<Rightarrow> Inl e
           | Inr t \<Rightarrow> Inr (string_includes s t)))"

definition Number_equals :: "runtime \<Rightarrow> jsval \<Rightarrow> jsval \<Rightarrow> error + bool" where
  "Number_equals rt v w =
     (case ToNumber rt v of
        Inl e \<Rightarrow> Inl e
      | Inr x \<Rightarrow>
          (case ToNumber rt w of
             Inl e \<Rightarrow> Inl e
           | Inr y \<Rightarrow> Inr (num_equal x y)))"

text \<open>
  \<^verbatim>\<open>xs.filter(f)\<close> with a callback that may throw: the elements are visited in order and
  the first exception ends the call.
\<close>

fun array_filter :: "('a \<Rightarrow> error + bool) \<Rightarrow> 'a list \<Rightarrow> error + 'a list" where
  "array_filter f [] = Inr []"
| "array_filter f (x # xs) =
     (case f x of
        Inl e \<Rightarrow> Inl e
      | Inr keep \<Rightarrow>
          (case array_filter f xs of
             Inl e \<Rightarrow> Inl e
           | Inr ys \<Rightarrow> Inr (if keep then x # ys else ys)))"

text \<open>\<^verbatim>\<open>xs.findIndex(p)\<close>: the index of the first element satisfying \<open>p\<close>, or \<open>-1\<close>.\<close>

fun findIndex :: "('a \<Rightarrow> bool) \<Rightarrow> 'a list \<Rightarrow> int" where
  "findIndex p [] = - 1"
| "findIndex p (x # xs) =
     (if p x then 0
      else (let i = findIndex p xs in if i = - 1 then - 1 else i + 1))"

text \<open>\<^verbatim>\<open>xs.splice(i, 1)\<close> for an index inside the array: the array without position \<open>i\<close>.\<close>

definition splice1 :: "int \<Rightarrow> 'a list \<Rightarrow> 'a list" where
  "splice1 i xs = take (nat i) xs @ drop (nat i + 1) xs"

section \<open>Records, requests and responses\<close>

text \<open>
  The eight fields a handler reads from \<^verbatim>\<open>request.payload\<close>, and a stored book, which
  has them and four more. The identifier and the two time stamps are strings made by
  the handler, \<open>finished\<close> is the boolean an \<^verbatim>\<open>===\<close> returned. The field \<^verbatim>\<open>id\<close> of
  the source is \<open>book_id\<close> here.
\<close>

record payload =
  name :: jsval
  year :: jsval
  author :: jsval
  summary :: jsval
  publisher :: jsval
  pageCount :: jsval
  readPage :: jsval
  reading :: jsval

record book = payload +
  book_id :: string
  finished :: bool
  insertedAt :: string
  updatedAt :: string

text \<open>
  \<^verbatim>\<open>request.payload\<close> is \<^verbatim>\<open>null\<close> when the request has no body, and reading a field of
  \<^verbatim>\<open>null\<close> throws: that payload is \<open>None\<close>. Any other payload is \<open>Some\<close> of the eight
  fields read from it, those it does not have being \<^verbatim>\<open>undefined\<close> (all eight, when the
  body is a JSON number, string, boolean or array).
\<close>

type_synonym request_payload = "payload option"

text \<open>The parameters \<^verbatim>\<open>name\<close>, \<^verbatim>\<open>reading\<close> and \<^verbatim>\<open>finished\<close> of \<^verbatim>\<open>request.query\<close>.\<close>

record query =
  query_name :: jsval
  query_reading :: jsval
  query_finished :: jsval

text \<open>The object \<^verbatim>\<open>{id, name, publisher}\<close> a listing shows for a book.\<close>

datatype book_summary =
  BookSummary (summary_id: string) (summary_name: jsval) (summary_publisher: jsval)

datatype response_data =
  DataBookId string
| DataBooks "book_summary list"
| DataBook book

record response =
  status :: string
  message :: "string option"
  data :: "response_data option"
  code :: nat

section \<open>The handlers\<close>

text \<open>
  The collection \<^verbatim>\<open>books\<close> is module state: a handler that writes it takes the list and
  returns the new one beside its result. The array is created in \<^verbatim>\<open>books.js\<close>, which
  is not among the sources read here, so nothing is assumed about its content: every
  theorem holds for every list of records. \<^verbatim>\<open>nanoid(16)\<close> and
  \<^verbatim>\<open>new Date().toISOString()\<close> are read from the environment: their results are the
  arguments \<open>new_id\<close> and \<open>now\<close>. The result of a handler is the response it returns
  (\<open>Inr\<close>) or the exception it ends with (\<open>Inl\<close>).
\<close>

definition addBookHandler ::
  "runtime \<Rightarrow> string \<Rightarrow> string \<Rightarrow> request_payload \<Rightarrow> book list \<Rightarrow>
     (error + response) \<times> book list" where
  "addBookHandler rt new_id now request_payload books =
     (case request_payload of
        None \<Rightarrow> (Inl TypeError, books)
      | Some p \<Rightarrow>
          (let newBook =
                 \<lparr> name = name p, year = year p, author = author p, summary = summary p,
                   publisher = publisher p, pageCount = pageCount p,
                   readPage = readPage p, reading = reading p,
                   book_id = new_id,
                   finished = strict_equals (pageCount p) (readPage p),
                   insertedAt = now, updatedAt = now \<rparr>
           in if typeof (name p) = ''undefined'' then
                (Inr \<lparr> status = ''fail'',
                       message = Some ''Gagal menambahkan buku. Mohon isi nama buku'',
                       data = None, code = 400 \<rparr>, books)
              else
                (case js_gt rt (readPage p) (pageCount p) of
                   Inl e \<Rightarrow> (Inl e, books)
                 | Inr True \<Rightarrow>
                     (Inr \<lparr> status = ''fail'',
                            message = Some
                              ''Gagal menambahkan buku. readPage tidak boleh lebih besar dari pageCount'',
                            data = None, code = 400 \<rparr>, books)
                 | Inr False \<Rightarrow>
                     (let books' = books @ [newBook];
                          isSuccess = (length (filter (\<lambda>b. book_id b = new_id) books') > 0)
                      in if isSuccess then
                           (Inr \<lparr> status = ''success'',
                                  message = Some ''Buku berhasil ditambahkan'',
                                  data = Some (DataBookId new_id), code = 201 \<rparr>, books')
                         else
                           (Inr \<lparr> status = ''error'',
                                  message = Some ''Buku gagal ditambahkan'',
                                  data = None, code = 500 \<rparr>, books')))))"

definition book_summary_of :: "book \<Rightarrow> book_summary" where
  "book_summary_of b = BookSummary (book_id b) (name b) (publisher b)"

definition list_response :: "book list \<Rightarrow> response" where
  "list_response bs =
     \<lparr> status = ''success'', message = None,
       data = Some (DataBooks (map book_summary_of bs)), code = 200 \<rparr>"

definition getAllBooksHandler :: "runtime \<Rightarrow> query \<Rightarrow> book list \<Rightarrow> error + response" where
  "getAllBooksHandler rt q books =
     (if length books = 0 then
        Inr \<lparr> status = ''success'', message = None, data = Some (DataBooks []), code = 200 \<rparr>
      else
        (case (if typeof (query_name q) \<noteq> ''undefined'' then
                 array_filter (\<lambda>b. lowercase_includes rt (name b) (query_name q)) books
               else Inr books) of
           Inl e \<Rightarrow> Inl e
         | Inr filterBook1 \<Rightarrow>
             (case (if typeof (query_reading q) \<noteq> ''undefined'' then
                      array_filter (\<lambda>b. Number_equals rt (reading b) (query_reading q)) books
                    else Inr filterBook1) of
                Inl e \<Rightarrow> Inl e
              | Inr filterBook2 \<Rightarrow>
                  (case (if typeof (query_finished q) \<noteq> ''undefined'' then
                           array_filter
                             (\<lambda>b. Number_equals rt (JBoolean (finished b)) (query_finished q))
                             books
                         else Inr filterBook2) of
                     Inl e \<Rightarrow> Inl e
                   | Inr filterBook3 \<Rightarrow> Inr (list_response filterBook3)))))"

definition getBookByIdHandler :: "string \<Rightarrow> book list \<Rightarrow> response" where
  "getBookByIdHandler bookId books =
     (case filter (\<lambda>n. book_id n = bookId) books of
        b # rest \<Rightarrow>
          \<lparr> status = ''success'', message = None, data = Some (DataBook b), code = 200 \<rparr>
      | [] \<Rightarrow>
          \<lparr> status = ''fail'', message = Some ''Buku tidak ditemukan'',
            data = None, code = 404 \<rparr>)"

definition editBookByIdHandler ::
  "runtime \<Rightarrow> string \<Rightarrow> string \<Rightarrow> request_payload \<Rightarrow> book list \<Rightarrow>
     (error + response) \<times> book list" where
  "editBookByIdHandler rt now bookId request_payload books =
     (case request_payload of
        None \<Rightarrow> (Inl TypeError, books)
      | Some p \<Rightarrow>
          (let index = findIndex (\<lambda>b. book_id b = bookId) books
           in if typeof (name p) = ''undefined'' then
                (Inr \<lparr> status = ''fail'',
                       message = Some ''Gagal memperbarui buku. Mohon isi nama buku'',
                       data = None, code = 400 \<rparr>, books)
              else
                (case js_gt rt (readPage p) (pageCount p) of
                   Inl e \<Rightarrow> (Inl e, books)
                 | Inr True \<Rightarrow>
                     (Inr \<lparr> status = ''fail'',
                            message = Some
                              ''Gagal memperbarui buku. readPage tidak boleh lebih besar dari pageCount'',
                            data = None, code = 400 \<rparr>, books)
                 | Inr False \<Rightarrow>
                     (if index \<noteq> - 1 then
                        (Inr \<lparr> status = ''success'',
                               message = Some ''Buku berhasil diperbarui'',
                               data = None, code = 200 \<rparr>,
                         books[nat index :=
                           (books ! nat index)
                             \<lparr> name := name p, year := year p, author := author p,
                               summary := summary p, publisher := publisher p,
                               pageCount := pageCount p, readPage := readPage p,
                               reading := reading p, updatedAt := now \<rparr>])
                      else
                        (Inr \<lparr> status = ''fail'',
                               message = Some ''Gagal memperbarui buku. Id tidak ditemukan'',
                               data = None, code = 404 \<rparr>, books)))))"

definition deleteBookByIdHandler :: "string \<Rightarrow> book list \<Rightarrow> response \<times> book list" where
  "deleteBookByIdHandler bookId books =
     (let index = findIndex (\<lambda>b. book_id b = bookId) books
      in if index \<noteq> - 1 then
           (\<lparr> status = ''success'', message = Some ''Buku berhasil dihapus'',
              data = None, code = 200 \<rparr>, splice1 index books)
         else
           (\<lparr> status = ''fail'', message = Some ''Buku gagal dihapus. Id tidak ditemukan'',
              data = None, code = 404 \<rparr>, books))"

section \<open>A runtime to evaluate the handlers with\<close>

text \<open>
  To run the handlers on concrete requests the three built-ins need values. Those below
  agree with the language on ASCII strings (lower-casing), on the empty string and the
  strings of at most fifteen decimal digits (string to number, where no rounding
  happens) and on \<^verbatim>\<open>NaN\<close>, the infinities and the natural numbers below \<open>10\<^sup>2\<^sup>1\<close>
  (number to string). A string that is not made of decimal digits only is taken to have
  no numeric reading, and any other number is printed as its integer part. They are
  used where they agree with the language only.
\<close>

definition ascii_toLowerCase :: "string \<Rightarrow> string" where
  "ascii_toLowerCase s =
     map (\<lambda>c. case map_of (zip ''ABCDEFGHIJKLMNOPQRSTUVWXYZ''
                                ''abcdefghijklmnopqrstuvwxyz'') c of
                 Some d \<Rightarrow> d
               | None \<Rightarrow> c) s"

fun decimal_digits :: "rat \<Rightarrow> string \<Rightarrow> jsnum" where
  "decimal_digits acc [] = Finite acc"
| "decimal_digits acc (c # cs) =
     (case map_of (zip ''0123456789'' [0, 1, 2, 3, 4, 5, 6, 7, 8, 9]) c of
        Some d \<Rightarrow> decimal_digits (10 * acc + d) cs
      | None \<Rightarrow> NaN)"

function nat_to_decimal :: "nat \<Rightarrow> string" where
  "nat_to_decimal n =
     (if n < 10 then [''0123456789'' ! n]
      else nat_to_decimal (n div 10) @ [''0123456789'' ! (n mod 10)])"
  by pat_completeness auto
termination
  by (relation "measure (\<lambda>n. n)") auto

fun number_to_decimal :: "jsnum \<Rightarrow> string" where
  "number_to_decimal NaN = ''NaN''"
| "number_to_decimal PosInfinity = ''Infinity''"
| "number_to_decimal NegInfinity = ''-Infinity''"
| "number_to_decimal (Finite r) =
     (if r < 0 then ''-'' @ nat_to_decimal (nat \<lfloor>- r\<rfloor>) else nat_to_decimal (nat \<lfloor>r\<rfloor>))"

definition node_runtime :: runtime where
  "node_runtime =
     \<lparr> toLowerCase = ascii_toLowerCase, StringToNumber = decimal_digits 0,
       NumberToString = number_to_decimal \<rparr>"

text \<open>
  Payloads and a collection for the examples: the books of the scenario of the
  specification. \<open>shelf\<close> is the collection after two successful creations.
\<close>

definition example_payload :: "jsval \<Rightarrow> jsval \<Rightarrow> jsval \<Rightarrow> jsval \<Rightarrow> payload" where
  "example_payload n pc rp rd =
     \<lparr> name = n, year = JNumber (Finite 2020), author = JString ''Author'',
       summary = JString ''Summary'', publisher = JString ''Publisher'',
       pageCount = pc, readPage = rp, reading = rd \<rparr>"

definition shelf :: "book list" where
  "shelf =
     snd (addBookHandler node_runtime ''id-gamma'' ''2024-01-02T00:00:00.000Z''
            (Some (example_payload (JString ''Gamma'') (JNumber (Finite 50))
                     (JNumber (Finite 10)) (JBoolean False)))
       (snd (addBookHandler node_runtime ''id-alpha'' ''2024-01-01T00:00:00.000Z''
               (Some (example_payload (JString ''Alpha'') (JNumber (Finite 100))
                        (JNumber (Finite 100)) (JBoolean True)))
               [])))"

section \<open>When a listing throws\<close>

text \<open>
  A filter of a listing runs its test on every stored book, also when a later filter
  replaces its result. The predicate below holds of the requests on which some test
  throws: the collection is not empty (an empty one is answered before any filter) and,
  for a filter that is supplied, the test throws on some book.
\<close>

definition listing_throws :: "runtime \<Rightarrow> query \<Rightarrow> book list \<Rightarrow> bool" where
  "listing_throws rt q books =
     (books \<noteq> [] \<and>
      ((typeof (query_name q) \<noteq> ''undefined'' \<and>
        (\<exists>b\<in>set books. lowercase_includes rt (name b) (query_name q) = Inl TypeError)) \<or>
       (typeof (query_reading q) \<noteq> ''undefined'' \<and>
        (\<exists>b\<in>set books. Number_equals rt (reading b) (query_reading q) = Inl TypeError)) \<or>
       (typeof (query_finished q) \<noteq> ''undefined'' \<and>
        (\<exists>b\<in>set books.
           Number_equals rt (JBoolean (finished b)) (query_finished q) = Inl TypeError))))"

section \<open>Facts about the values and the array operations\<close>

lemma strict_equals_iff:
  "strict_equals x y \<longleftrightarrow> x = y \<and> is_primitive x \<and> x \<noteq> JNumber NaN"
  by (cases x; cases y) (auto simp: num_equal_def)

lemma typeof_string_iff: "typeof v = ''string'' \<longleftrightarrow> (\<exists>s. v = JString s)"
  by (cases v) simp_all

lemma ToPrimitive_primitive: "is_primitive v \<Longrightarrow> ToPrimitive rt v = Inr v"
  by (cases v) simp_all

lemma ToNumber_primitive: "is_primitive v \<Longrightarrow> ToNumber rt v = Inr (primitive_ToNumber rt v)"
  by (simp add: ToNumber_def ToPrimitive_primitive)

lemma js_gt_number_undefined: "js_gt rt (JNumber n) JUndefined = Inr False"
  by (simp add: js_gt_def)

lemma lowercase_includes_throws:
  "lowercase_includes rt v w = Inl TypeError \<longleftrightarrow>
     typeof v \<noteq> ''string'' \<or> typeof w \<noteq> ''string''"
  by (cases v; cases w) (simp_all add: lowercase_includes_def)

lemma Number_equals_throws:
  "Number_equals rt v w = Inl TypeError \<longleftrightarrow>
     ToNumber rt v = Inl TypeError \<or> ToNumber rt w = Inl TypeError"
proof (cases "ToNumber rt v")
  case (Inl e)
  then show ?thesis by (cases e) (simp add: Number_equals_def)
next
  case v: (Inr x)
  show ?thesis
  proof (cases "ToNumber rt w")
    case (Inl e)
    with v show ?thesis by (cases e) (simp add: Number_equals_def)
  next
    case (Inr y)
    with v show ?thesis by (simp add: Number_equals_def)
  qed
qed

lemma findIndex_ge: "- 1 \<le> findIndex p xs"
  by (induction xs) (auto simp: Let_def)

lemma findIndex_none: "findIndex p xs = - 1 \<longleftrightarrow> (\<forall>x\<in>set xs. \<not> p x)"
proof (induction xs)
  case Nil
  show ?case by simp
next
  case (Cons x xs)
  have "- 1 \<le> findIndex p xs" by (rule findIndex_ge)
  then have "findIndex p xs + 1 \<noteq> - 1" by arith
  with Cons show ?case by (auto simp: Let_def)
qed

lemma findIndex_found:
  "findIndex p xs \<noteq> - 1 \<Longrightarrow>
     0 \<le> findIndex p xs \<and> nat (findIndex p xs) < length xs \<and>
     p (xs ! nat (findIndex p xs)) \<and> (\<forall>j < nat (findIndex p xs). \<not> p (xs ! j))"
proof (induction xs)
  case Nil
  then show ?case by simp
next
  case (Cons x xs)
  show ?case
  proof (cases "p x")
    case True
    then show ?thesis by simp
  next
    case False
    with Cons.prems have ne: "findIndex p xs \<noteq> - 1"
      by (auto simp: Let_def split: if_splits)
    from Cons.IH [OF ne] have ih: "0 \<le> findIndex p xs" "nat (findIndex p xs) < length xs"
      "p (xs ! nat (findIndex p xs))" "\<forall>j < nat (findIndex p xs). \<not> p (xs ! j)"
      by auto
    have eq: "findIndex p (x # xs) = findIndex p xs + 1"
      using False ne by (simp add: Let_def)
    have n: "nat (findIndex p xs + 1) = Suc (nat (findIndex p xs))"
      using ih(1) by simp
    show ?thesis unfolding eq n using ih False
      by (auto simp: less_Suc_eq_0_disj)
  qed
qed

lemma array_filter_throws:
  "\<exists>x\<in>set xs. f x = Inl TypeError \<Longrightarrow> array_filter f xs = Inl TypeError"
proof (induction xs)
  case Nil
  then show ?case by simp
next
  case (Cons x xs)
  show ?case
  proof (cases "f x")
    case (Inl e)
    then show ?thesis by (cases e) simp
  next
    case (Inr keep)
    with Cons.prems have "\<exists>y\<in>set xs. f y = Inl TypeError" by auto
    then have "array_filter f xs = Inl TypeError" by (rule Cons.IH)
    with Inr show ?thesis by simp
  qed
qed

lemma array_filter_returns:
  "\<not> (\<exists>x\<in>set xs. f x = Inl TypeError) \<Longrightarrow>
     array_filter f xs = Inr (filter (\<lambda>x. f x = Inr True) xs)"
proof (induction xs)
  case Nil
  show ?case by simp
next
  case (Cons x xs)
  from Cons.prems have x: "f x \<noteq> Inl TypeError"
    and xs: "\<not> (\<exists>y\<in>set xs. f y = Inl TypeError)" by auto
  from x obtain keep where k: "f x = Inr keep"
  proof (cases "f x")
    case (Inl e)
    with x show ?thesis by (cases e) simp
  next
    case (Inr keep)
    then show ?thesis by (rule that)
  qed
  from Cons.IH [OF xs] k show ?case by simp
qed

lemma shelf_eq:
  "shelf =
     [\<lparr> name = JString ''Alpha'', year = JNumber (Finite 2020), author = JString ''Author'',
        summary = JString ''Summary'', publisher = JString ''Publisher'',
        pageCount = JNumber (Finite 100), readPage = JNumber (Finite 100),
        reading = JBoolean True, book_id = ''id-alpha'', finished = True,
        insertedAt = ''2024-01-01T00:00:00.000Z'',
        updatedAt = ''2024-01-01T00:00:00.000Z'' \<rparr>,
      \<lparr> name = JString ''Gamma'', year = JNumber (Finite 2020), author = JString ''Author'',
        summary = JString ''Summary'', publisher = JString ''Publisher'',
        pageCount = JNumber (Finite 50), readPage = JNumber (Finite 10),
        reading = JBoolean False, book_id = ''id-gamma'', finished = False,
        insertedAt = ''2024-01-02T00:00:00.000Z'',
        updatedAt = ''2024-01-02T00:00:00.000Z'' \<rparr>]"
  by (simp add: shelf_def addBookHandler_def example_payload_def js_gt_def num_equal_def
      Let_def)

section \<open>Creating a book\<close>

lemma addBookHandler_null:
  "addBookHandler rt new_id now None books = (Inl TypeError, books)"
  by (simp add: addBookHandler_def)

lemma addBookHandler_no_name:
  "typeof (name p) = ''undefined'' \<Longrightarrow>
     addBookHandler rt new_id now (Some p) books =
       (Inr \<lparr> status = ''fail'', message = Some ''Gagal menambahkan buku. Mohon isi nama buku'',
              data = None, code = 400 \<rparr>, books)"
  by (simp add: addBookHandler_def)

lemma addBookHandler_readPage:
  "typeof (name p) \<noteq> ''undefined'' \<Longrightarrow> js_gt rt (readPage p) (pageCount p) = Inr True \<Longrightarrow>
     addBookHandler rt new_id now (Some p) books =
       (Inr \<lparr> status = ''fail'',
              message = Some
                ''Gagal menambahkan buku. readPage tidak boleh lebih besar dari pageCount'',
              data = None, code = 400 \<rparr>, books)"
  by (simp add: addBookHandler_def)

lemma addBookHandler_throws:
  "typeof (name p) \<noteq> ''undefined'' \<Longrightarrow> js_gt rt (readPage p) (pageCount p) = Inl e \<Longrightarrow>
     addBookHandler rt new_id now (Some p) books = (Inl e, books)"
  by (simp add: addBookHandler_def)

lemma addBookHandler_valid:
  "typeof (name p) \<noteq> ''undefined'' \<Longrightarrow> js_gt rt (readPage p) (pageCount p) = Inr False \<Longrightarrow>
     addBookHandler rt new_id now (Some p) books =
       (Inr \<lparr> status = ''success'', message = Some ''Buku berhasil ditambahkan'',
              data = Some (DataBookId new_id), code = 201 \<rparr>,
        books @ [\<lparr> name = name p, year = year p, author = author p, summary = summary p,
                   publisher = publisher p, pageCount = pageCount p,
                   readPage = readPage p, reading = reading p,
                   book_id = new_id,
                   finished = strict_equals (pageCount p) (readPage p),
                   insertedAt = now, updatedAt = now \<rparr>])"
  by (simp add: addBookHandler_def Let_def)

lemma addBookHandler_created:
  assumes "fst (addBookHandler rt new_id now request_payload books) = Inr r" and "code r = 201"
  shows "\<exists>p. request_payload = Some p \<and> typeof (name p) \<noteq> ''undefined'' \<and>
             js_gt rt (readPage p) (pageCount p) = Inr False"
proof (cases request_payload)
  case None
  with assms show ?thesis by (simp add: addBookHandler_null)
next
  case (Some p)
  show ?thesis
  proof (cases "typeof (name p) = ''undefined''")
    case True
    with assms Some show ?thesis by (auto simp: addBookHandler_no_name)
  next
    case n: False
    show ?thesis
    proof (cases "js_gt rt (readPage p) (pageCount p)")
      case (Inl e)
      with assms Some n show ?thesis by (simp add: addBookHandler_throws)
    next
      case (Inr g)
      with assms Some n show ?thesis
        by (cases g) (auto simp: addBookHandler_readPage)
    qed
  qed
qed

text \<open>
  Claim C3, as the code has it. For a payload that is not \<^verbatim>\<open>null\<close>: a creation without
  \<open>name\<close> is answered with status \<open>fail\<close> and code 400 and leaves the collection as it
  was, and so is a creation whose \<open>readPage\<close> is greater than its \<open>pageCount\<close>. When both
  hold the answer is the one of the missing name; the message about \<open>readPage\<close> is given
  when the name is present. On the payload \<^verbatim>\<open>null\<close> of a request without a body the
  handler throws, and the collection is unchanged.
\<close>

theorem addBookHandler_validation:
  "(typeof (name p) = ''undefined'' \<longrightarrow>
      addBookHandler rt new_id now (Some p) books =
        (Inr \<lparr> status = ''fail'',
               message = Some ''Gagal menambahkan buku. Mohon isi nama buku'',
               data = None, code = 400 \<rparr>, books)) \<and>
   (js_gt rt (readPage p) (pageCount p) = Inr True \<longrightarrow>
      (\<exists>r. addBookHandler rt new_id now (Some p) books = (Inr r, books) \<and>
           status r = ''fail'' \<and> code r = 400)) \<and>
   (typeof (name p) \<noteq> ''undefined'' \<and> js_gt rt (readPage p) (pageCount p) = Inr True \<longrightarrow>
      addBookHandler rt new_id now (Some p) books =
        (Inr \<lparr> status = ''fail'',
               message = Some
                 ''Gagal menambahkan buku. readPage tidak boleh lebih besar dari pageCount'',
               data = None, code = 400 \<rparr>, books)) \<and>
   addBookHandler rt new_id now None books = (Inl TypeError, books)"
proof (cases "typeof (name p) = ''undefined''")
  case True
  then show ?thesis by (simp add: addBookHandler_no_name addBookHandler_null)
next
  case False
  then show ?thesis by (simp add: addBookHandler_readPage addBookHandler_null)
qed

theorem addBookHandler_validation_witness:
  "typeof (name (example_payload JUndefined (JNumber (Finite 50)) (JNumber (Finite 60))
      (JBoolean False))) = ''undefined'' \<and>
   js_gt node_runtime (JNumber (Finite 60)) (JNumber (Finite 50)) = Inr True \<and>
   addBookHandler node_runtime ''id-beta'' ''2024-01-03T00:00:00.000Z''
     (Some (example_payload JUndefined (JNumber (Finite 50)) (JNumber (Finite 60))
        (JBoolean False)))
     shelf =
     (Inr \<lparr> status = ''fail'', message = Some ''Gagal menambahkan buku. Mohon isi nama buku'',
            data = None, code = 400 \<rparr>, shelf) \<and>
   addBookHandler node_runtime ''id-beta'' ''2024-01-03T00:00:00.000Z''
     (Some (example_payload (JString ''Beta'') (JNumber (Finite 50)) (JNumber (Finite 60))
        (JBoolean False)))
     shelf =
     (Inr \<lparr> status = ''fail'',
            message = Some
              ''Gagal menambahkan buku. readPage tidak boleh lebih besar dari pageCount'',
            data = None, code = 400 \<rparr>, shelf)"
proof -
  have g: "js_gt node_runtime (JNumber (Finite 60)) (JNumber (Finite 50)) = Inr True"
    by (simp add: js_gt_def)
  note a = addBookHandler_validation [of
      "example_payload JUndefined (JNumber (Finite 50)) (JNumber (Finite 60)) (JBoolean False)"
      node_runtime "''id-beta''" "''2024-01-03T00:00:00.000Z''" shelf]
  note b = addBookHandler_validation [of
      "example_payload (JString ''Beta'') (JNumber (Finite 50)) (JNumber (Finite 60))
         (JBoolean False)"
      node_runtime "''id-beta''" "''2024-01-03T00:00:00.000Z''" shelf]
  show ?thesis
    using a b g by (simp add: example_payload_def)
qed

text \<open>
  The claim as it is written fails on a request without a body: its payload is
  \<^verbatim>\<open>null\<close>, so \<open>name\<close> is absent, and the handler throws instead of answering 400.
\<close>

theorem addBookHandler_validation_counterexample:
  "addBookHandler node_runtime ''id-beta'' ''2024-01-03T00:00:00.000Z'' None shelf =
     (Inl TypeError, shelf)"
  by (simp add: addBookHandler_def)

text \<open>
  Claim C5. The handler never answers with status \<open>error\<close> or code 500: when it
  answers, the code is 400 or 201. A creation that
  passes both checks appends the new record, made of the eight supplied fields, the
  generated identifier, the \<open>finished\<close> flag and the two time stamps, and is answered
  with status \<open>success\<close>, code 201 and that identifier.
\<close>

theorem addBookHandler_never_error:
  "(\<forall>r. fst (addBookHandler rt new_id now request_payload books) = Inr r \<longrightarrow>
        status r \<noteq> ''error'' \<and> code r \<noteq> 500 \<and> (code r = 400 \<or> code r = 201)) \<and>
   (typeof (name p) \<noteq> ''undefined'' \<and> js_gt rt (readPage p) (pageCount p) = Inr False \<longrightarrow>
      addBookHandler rt new_id now (Some p) books =
        (Inr \<lparr> status = ''success'', message = Some ''Buku berhasil ditambahkan'',
               data = Some (DataBookId new_id), code = 201 \<rparr>,
         books @ [\<lparr> name = name p, year = year p, author = author p, summary = summary p,
                    publisher = publisher p, pageCount = pageCount p,
                    readPage = readPage p, reading = reading p,
                    book_id = new_id,
                    finished = strict_equals (pageCount p) (readPage p),
                    insertedAt = now, updatedAt = now \<rparr>]))"
proof (intro conjI allI impI)
  fix r assume r: "fst (addBookHandler rt new_id now request_payload books) = Inr r"
  show "status r \<noteq> ''error''"
    using r
    by (auto simp: addBookHandler_def Let_def split: option.splits if_splits sum.splits
        bool.splits)
  show "code r \<noteq> 500"
    using r
    by (auto simp: addBookHandler_def Let_def split: option.splits if_splits sum.splits
        bool.splits)
  show "code r = 400 \<or> code r = 201"
    using r
    by (auto simp: addBookHandler_def Let_def split: option.splits if_splits sum.splits
        bool.splits)
next
  assume "typeof (name p) \<noteq> ''undefined'' \<and> js_gt rt (readPage p) (pageCount p) = Inr False"
  then show "addBookHandler rt new_id now (Some p) books =
        (Inr \<lparr> status = ''success'', message = Some ''Buku berhasil ditambahkan'',
               data = Some (DataBookId new_id), code = 201 \<rparr>,
         books @ [\<lparr> name = name p, year = year p, author = author p, summary = summary p,
                    publisher = publisher p, pageCount = pageCount p,
                    readPage = readPage p, reading = reading p,
                    book_id = new_id,
                    finished = strict_equals (pageCount p) (readPage p),
                    insertedAt = now, updatedAt = now \<rparr>])"
    by (simp add: addBookHandler_valid)
qed

theorem addBookHandler_never_error_witness:
  "js_gt node_runtime (JNumber (Finite 5)) (JNumber (Finite 20)) = Inr False \<and>
   addBookHandler node_runtime ''id-delta'' ''2024-01-03T00:00:00.000Z''
     (Some (example_payload (JString ''Delta'') (JNumber (Finite 20)) (JNumber (Finite 5))
        (JBoolean True))) shelf =
     (Inr \<lparr> status = ''success'', message = Some ''Buku berhasil ditambahkan'',
            data = Some (DataBookId ''id-delta''), code = 201 \<rparr>,
      shelf @ [\<lparr> name = JString ''Delta'', year = JNumber (Finite 2020),
                 author = JString ''Author'', summary = JString ''Summary'',
                 publisher = JString ''Publisher'', pageCount = JNumber (Finite 20),
                 readPage = JNumber (Finite 5), reading = JBoolean True,
                 book_id = ''id-delta'', finished = False,
                 insertedAt = ''2024-01-03T00:00:00.000Z'',
                 updatedAt = ''2024-01-03T00:00:00.000Z'' \<rparr>])"
proof -
  have g: "js_gt node_runtime (JNumber (Finite 5)) (JNumber (Finite 20)) = Inr False"
    by (simp add: js_gt_def)
  note a = addBookHandler_never_error [of node_runtime "''id-delta''"
        "''2024-01-03T00:00:00.000Z''" None shelf
        "example_payload (JString ''Delta'') (JNumber (Finite 20)) (JNumber (Finite 5))
           (JBoolean True)"]
  show ?thesis
    using g a [THEN conjunct2] by (simp add: example_payload_def num_equal_def)
qed

text \<open>
  Claim C6. The record a successful creation stores has \<open>finished\<close> true exactly when the
  supplied \<open>pageCount\<close> and \<open>readPage\<close> are strictly equal (\<^verbatim>\<open>===\<close>), that is when they
  are the same primitive value and that value is not NaN.
\<close>

theorem addBookHandler_finished:
  assumes "addBookHandler rt new_id now request_payload books = (Inr r, books')"
    and "code r = 201"
  shows "\<exists>p b. request_payload = Some p \<and> books' = books @ [b] \<and>
              (finished b \<longleftrightarrow> strict_equals (pageCount p) (readPage p)) \<and>
              (finished b \<longleftrightarrow>
                 pageCount p = readPage p \<and> is_primitive (pageCount p) \<and>
                 pageCount p \<noteq> JNumber NaN)"
proof -
  from assms have "fst (addBookHandler rt new_id now request_payload books) = Inr r" by simp
  from addBookHandler_created [OF this assms(2)] obtain p where p: "request_payload = Some p"
    and v: "typeof (name p) \<noteq> ''undefined''" "js_gt rt (readPage p) (pageCount p) = Inr False"
    by blast
  from addBookHandler_valid [OF v, of new_id now books] assms(1) p
  show ?thesis by (auto simp: strict_equals_iff)
qed

theorem addBookHandler_finished_witness:
  "fst (addBookHandler node_runtime ''id-alpha'' ''2024-01-01T00:00:00.000Z''
      (Some (example_payload (JString ''Alpha'') (JNumber (Finite 100)) (JNumber (Finite 100))
         (JBoolean True))) []) =
     Inr \<lparr> status = ''success'', message = Some ''Buku berhasil ditambahkan'',
           data = Some (DataBookId ''id-alpha''), code = 201 \<rparr> \<and>
   (\<exists>b. snd (addBookHandler node_runtime ''id-alpha'' ''2024-01-01T00:00:00.000Z''
      (Some (example_payload (JString ''Alpha'') (JNumber (Finite 100)) (JNumber (Finite 100))
         (JBoolean True))) []) = [] @ [b] \<and> finished b) \<and>
   (\<exists>b. snd (addBookHandler node_runtime ''id-gamma'' ''2024-01-02T00:00:00.000Z''
      (Some (example_payload (JString ''Gamma'') (JNumber (Finite 50)) (JNumber (Finite 10))
         (JBoolean False))) []) = [] @ [b] \<and> \<not> finished b)"
proof -
  let ?pa = "example_payload (JString ''Alpha'') (JNumber (Finite 100)) (JNumber (Finite 100))
         (JBoolean True)"
  let ?pg = "example_payload (JString ''Gamma'') (JNumber (Finite 50)) (JNumber (Finite 10))
         (JBoolean False)"
  let ?A = "addBookHandler node_runtime ''id-alpha'' ''2024-01-01T00:00:00.000Z'' (Some ?pa) []"
  let ?G = "addBookHandler node_runtime ''id-gamma'' ''2024-01-02T00:00:00.000Z'' (Some ?pg) []"
  let ?ra = "\<lparr> status = ''success'', message = Some ''Buku berhasil ditambahkan'',
          data = Some (DataBookId ''id-alpha''), code = 201 \<rparr>"
  let ?rg = "\<lparr> status = ''success'', message = Some ''Buku berhasil ditambahkan'',
          data = Some (DataBookId ''id-gamma''), code = 201 \<rparr>"
  have fa: "fst ?A = Inr ?ra"
    by (simp add: addBookHandler_def example_payload_def js_gt_def Let_def)
  have fg: "fst ?G = Inr ?rg"
    by (simp add: addBookHandler_def example_payload_def js_gt_def Let_def)
  have pa: "?A = (Inr ?ra, snd ?A)" using fa by (simp add: prod_eq_iff)
  have pg: "?G = (Inr ?rg, snd ?G)" using fg by (simp add: prod_eq_iff)
  have ca: "code ?ra = 201" and cg: "code ?rg = 201" by simp_all
  from addBookHandler_finished [OF pa ca] obtain p b where
    a: "Some ?pa = Some p" "snd ?A = [] @ [b]"
       "finished b \<longleftrightarrow> pageCount p = readPage p \<and> is_primitive (pageCount p) \<and>
          pageCount p \<noteq> JNumber NaN"
    by blast
  from a(1) have "p = ?pa" by simp
  with a(3) have "finished b" by (simp add: example_payload_def)
  with a(2) have ea: "\<exists>b. snd ?A = [] @ [b] \<and> finished b" by blast
  from addBookHandler_finished [OF pg cg] obtain p' b' where
    g: "Some ?pg = Some p'" "snd ?G = [] @ [b']"
       "finished b' \<longleftrightarrow> pageCount p' = readPage p' \<and> is_primitive (pageCount p') \<and>
          pageCount p' \<noteq> JNumber NaN"
    by blast
  from g(1) have "p' = ?pg" by simp
  with g(3) have "\<not> finished b'" by (simp add: example_payload_def)
  with g(2) have eg: "\<exists>b. snd ?G = [] @ [b] \<and> \<not> finished b" by blast
  from fa ea eg show ?thesis by blast
qed

text \<open>
  Claim C10, as the code has it. When a \<open>name\<close> is supplied, \<open>readPage\<close> is a number and
  \<open>pageCount\<close> is absent, the comparison \<^verbatim>\<open>readPage > pageCount\<close> is false: the creation
  is answered with code 201, and the record is stored with the \<open>readPage\<close> given, no
  \<open>pageCount\<close> and \<open>finished\<close> false.
\<close>

theorem addBookHandler_pageCount_absent:
  assumes "typeof (name p) \<noteq> ''undefined''" and "readPage p = JNumber n"
    and "pageCount p = JUndefined"
  shows "js_gt rt (readPage p) (pageCount p) = Inr False \<and>
         addBookHandler rt new_id now (Some p) books =
           (Inr \<lparr> status = ''success'', message = Some ''Buku berhasil ditambahkan'',
                  data = Some (DataBookId new_id), code = 201 \<rparr>,
            books @ [\<lparr> name = name p, year = year p, author = author p,
                       summary = summary p, publisher = publisher p,
                       pageCount = JUndefined, readPage = JNumber n, reading = reading p,
                       book_id = new_id, finished = False,
                       insertedAt = now, updatedAt = now \<rparr>])"
proof -
  have g: "js_gt rt (readPage p) (pageCount p) = Inr False"
    using assms(2,3) by (simp add: js_gt_number_undefined)
  show ?thesis
    using g addBookHandler_valid [OF assms(1) g, of new_id now books] assms(2,3) by simp
qed

theorem addBookHandler_pageCount_absent_witness:
  "typeof (name (example_payload (JString ''Epsilon'') JUndefined (JNumber (Finite 30))
      (JBoolean True))) \<noteq> ''undefined'' \<and>
   addBookHandler node_runtime ''id-epsilon'' ''2024-01-04T00:00:00.000Z''
      (Some (example_payload (JString ''Epsilon'') JUndefined (JNumber (Finite 30))
         (JBoolean True)))
      shelf =
        (Inr \<lparr> status = ''success'', message = Some ''Buku berhasil ditambahkan'',
               data = Some (DataBookId ''id-epsilon''), code = 201 \<rparr>,
         shelf @ [\<lparr> name = JString ''Epsilon'', year = JNumber (Finite 2020),
                    author = JString ''Author'', summary = JString ''Summary'',
                    publisher = JString ''Publisher'', pageCount = JUndefined,
                    readPage = JNumber (Finite 30), reading = JBoolean True,
                    book_id = ''id-epsilon'', finished = False,
                    insertedAt = ''2024-01-04T00:00:00.000Z'',
                    updatedAt = ''2024-01-04T00:00:00.000Z'' \<rparr>])"
proof -
  let ?p = "example_payload (JString ''Epsilon'') JUndefined (JNumber (Finite 30))
      (JBoolean True)"
  have h1: "typeof (name ?p) \<noteq> ''undefined''" by (simp add: example_payload_def)
  have h2: "readPage ?p = JNumber (Finite 30)" by (simp add: example_payload_def)
  have h3: "pageCount ?p = JUndefined" by (simp add: example_payload_def)
  from addBookHandler_pageCount_absent [OF h1 h2 h3, of node_runtime "''id-epsilon''"
      "''2024-01-04T00:00:00.000Z''" shelf] h1
  show ?thesis by (simp add: example_payload_def)
qed

text \<open>
  The claim as it is written fails when the payload has no \<open>name\<close>: with \<open>readPage\<close> a
  number and \<open>pageCount\<close> absent, the creation is answered with code 400 and nothing is
  stored.
\<close>

theorem addBookHandler_pageCount_absent_counterexample:
  "addBookHandler node_runtime ''id-epsilon'' ''2024-01-04T00:00:00.000Z''
      (Some (example_payload JUndefined JUndefined (JNumber (Finite 30)) (JBoolean True)))
      shelf =
     (Inr \<lparr> status = ''fail'', message = Some ''Gagal menambahkan buku. Mohon isi nama buku'',
            data = None, code = 400 \<rparr>, shelf)"
  by (simp add: addBookHandler_def example_payload_def)

section \<open>Updating a book\<close>

lemma editBookByIdHandler_updated:
  assumes "fst (editBookByIdHandler rt now bookId request_payload books) = Inr r"
    and "code r = 200"
  shows "\<exists>p. request_payload = Some p \<and> typeof (name p) \<noteq> ''undefined'' \<and>
             js_gt rt (readPage p) (pageCount p) = Inr False \<and>
             findIndex (\<lambda>b. book_id b = bookId) books \<noteq> - 1"
proof (cases request_payload)
  case None
  with assms show ?thesis by (simp add: editBookByIdHandler_def)
next
  case (Some p)
  show ?thesis
  proof (cases "typeof (name p) = ''undefined''")
    case True
    with assms Some show ?thesis by (auto simp: editBookByIdHandler_def)
  next
    case n: False
    show ?thesis
    proof (cases "js_gt rt (readPage p) (pageCount p)")
      case (Inl e)
      with assms Some n show ?thesis by (simp add: editBookByIdHandler_def)
    next
      case (Inr g)
      with assms Some n show ?thesis
        by (cases g) (auto simp: editBookByIdHandler_def Let_def split: if_splits)
    qed
  qed
qed

text \<open>
  Claim C2. A successful update (code 200) rewrites one record, the first one with the
  given identifier: its eight payload fields become the supplied values and its
  \<open>updatedAt\<close> the current time, while its identifier, its \<open>insertedAt\<close> and its stored
  \<open>finished\<close> stay as they were. The other records and the length of the collection do
  not change.
\<close>

theorem editBookByIdHandler_success:
  assumes "editBookByIdHandler rt now bookId request_payload books = (Inr r, books')"
    and "code r = 200"
  shows "\<exists>p. request_payload = Some p \<and>
          (\<exists>i < length books.
             book_id (books ! i) = bookId \<and> (\<forall>j < i. book_id (books ! j) \<noteq> bookId) \<and>
             length books' = length books \<and>
             (\<forall>j < length books. j \<noteq> i \<longrightarrow> books' ! j = books ! j) \<and>
             name (books' ! i) = name p \<and> year (books' ! i) = year p \<and>
             author (books' ! i) = author p \<and> summary (books' ! i) = summary p \<and>
             publisher (books' ! i) = publisher p \<and> pageCount (books' ! i) = pageCount p \<and>
             readPage (books' ! i) = readPage p \<and> reading (books' ! i) = reading p \<and>
             updatedAt (books' ! i) = now \<and>
             book_id (books' ! i) = book_id (books ! i) \<and>
             insertedAt (books' ! i) = insertedAt (books ! i) \<and>
             finished (books' ! i) = finished (books ! i))"
proof -
  let ?ix = "findIndex (\<lambda>b. book_id b = bookId) books"
  from assms have "fst (editBookByIdHandler rt now bookId request_payload books) = Inr r"
    by simp
  from editBookByIdHandler_updated [OF this assms(2)] obtain p where
    p: "request_payload = Some p" and
    v: "typeof (name p) \<noteq> ''undefined''" "js_gt rt (readPage p) (pageCount p) = Inr False"
    "?ix \<noteq> - 1"
    by blast
  from findIndex_found [OF v(3)] have f: "nat ?ix < length books"
    "book_id (books ! nat ?ix) = bookId" "\<forall>j < nat ?ix. book_id (books ! j) \<noteq> bookId"
    by auto
  have upd: "books' = books[nat ?ix :=
              (books ! nat ?ix)
                \<lparr> name := name p, year := year p, author := author p, summary := summary p,
                  publisher := publisher p, pageCount := pageCount p,
                  readPage := readPage p, reading := reading p, updatedAt := now \<rparr>]"
    using assms(1) p v by (simp add: editBookByIdHandler_def Let_def)
  have "\<exists>i < length books.
             book_id (books ! i) = bookId \<and> (\<forall>j < i. book_id (books ! j) \<noteq> bookId) \<and>
             length books' = length books \<and>
             (\<forall>j < length books. j \<noteq> i \<longrightarrow> books' ! j = books ! j) \<and>
             name (books' ! i) = name p \<and> year (books' ! i) = year p \<and>
             author (books' ! i) = author p \<and> summary (books' ! i) = summary p \<and>
             publisher (books' ! i) = publisher p \<and> pageCount (books' ! i) = pageCount p \<and>
             readPage (books' ! i) = readPage p \<and> reading (books' ! i) = reading p \<and>
             updatedAt (books' ! i) = now \<and>
             book_id (books' ! i) = book_id (books ! i) \<and>
             insertedAt (books' ! i) = insertedAt (books ! i) \<and>
             finished (books' ! i) = finished (books ! i)"
  proof (intro exI [of _ "nat ?ix"] conjI)
    show "nat ?ix < length books" by (rule f(1))
    show "book_id (books ! nat ?ix) = bookId" by (rule f(2))
    show "\<forall>j < nat ?ix. book_id (books ! j) \<noteq> bookId" by (rule f(3))
    show "length books' = length books" by (simp add: upd)
    show "\<forall>j < length books. j \<noteq> nat ?ix \<longrightarrow> books' ! j = books ! j" by (simp add: upd)
  qed (simp_all add: upd f(1))
  with p show ?thesis by blast
qed

text \<open>
  On the example collection: the book \<open>Gamma\<close> was stored unfinished; an update that
  sets its \<open>pageCount\<close> and \<open>readPage\<close> both to 80 leaves \<open>finished\<close> false.
\<close>

theorem editBookByIdHandler_success_witness:
  "fst (editBookByIdHandler node_runtime ''2024-02-01T00:00:00.000Z'' ''id-gamma''
      (Some (example_payload (JString ''Gamma II'') (JNumber (Finite 80)) (JNumber (Finite 80))
         (JBoolean True))) shelf) =
     Inr \<lparr> status = ''success'', message = Some ''Buku berhasil diperbarui'',
           data = None, code = 200 \<rparr> \<and>
   (\<exists>i < length shelf.
      book_id (shelf ! i) = ''id-gamma'' \<and>
      pageCount (snd (editBookByIdHandler node_runtime ''2024-02-01T00:00:00.000Z''
        ''id-gamma''
        (Some (example_payload (JString ''Gamma II'') (JNumber (Finite 80))
           (JNumber (Finite 80)) (JBoolean True))) shelf) ! i) = JNumber (Finite 80) \<and>
      readPage (snd (editBookByIdHandler node_runtime ''2024-02-01T00:00:00.000Z''
        ''id-gamma''
        (Some (example_payload (JString ''Gamma II'') (JNumber (Finite 80))
           (JNumber (Finite 80)) (JBoolean True))) shelf) ! i) = JNumber (Finite 80) \<and>
      updatedAt (snd (editBookByIdHandler node_runtime ''2024-02-01T00:00:00.000Z''
        ''id-gamma''
        (Some (example_payload (JString ''Gamma II'') (JNumber (Finite 80))
           (JNumber (Finite 80)) (JBoolean True))) shelf) ! i) =
        ''2024-02-01T00:00:00.000Z'' \<and>
      insertedAt (snd (editBookByIdHandler node_runtime ''2024-02-01T00:00:00.000Z''
        ''id-gamma''
        (Some (example_payload (JString ''Gamma II'') (JNumber (Finite 80))
           (JNumber (Finite 80)) (JBoolean True))) shelf) ! i) =
        ''2024-01-02T00:00:00.000Z'' \<and>
      \<not> finished (snd (editBookByIdHandler node_runtime ''2024-02-01T00:00:00.000Z''
        ''id-gamma''
        (Some (example_payload (JString ''Gamma II'') (JNumber (Finite 80))
           (JNumber (Finite 80)) (JBoolean True))) shelf) ! i))"
proof -
  let ?p = "example_payload (JString ''Gamma II'') (JNumber (Finite 80)) (JNumber (Finite 80))
         (JBoolean True)"
  let ?E = "editBookByIdHandler node_runtime ''2024-02-01T00:00:00.000Z'' ''id-gamma''
      (Some ?p) shelf"
  let ?r = "\<lparr> status = ''success'', message = Some ''Buku berhasil diperbarui'',
           data = None, code = 200 \<rparr>"
  have fe: "fst ?E = Inr ?r"
    by (simp add: editBookByIdHandler_def example_payload_def js_gt_def shelf_eq Let_def)
  have pe: "?E = (Inr ?r, snd ?E)" using fe by (simp add: prod_eq_iff)
  have c: "code ?r = 200" by simp
  from editBookByIdHandler_success [OF pe c] obtain p i where p: "Some ?p = Some p"
    and i: "i < length shelf"
    "book_id (shelf ! i) = ''id-gamma''"
    "pageCount (snd ?E ! i) = pageCount p"
    "readPage (snd ?E ! i) = readPage p"
    "updatedAt (snd ?E ! i) = ''2024-02-01T00:00:00.000Z''"
    "insertedAt (snd ?E ! i) = insertedAt (shelf ! i)"
    "finished (snd ?E ! i) = finished (shelf ! i)"
    by blast
  from p have pp: "p = ?p" by simp
  from i(1,2) have i1: "i = 1"
    by (auto simp: shelf_eq less_Suc_eq)
  have old: "insertedAt (shelf ! 1) = ''2024-01-02T00:00:00.000Z''" "\<not> finished (shelf ! 1)"
    by (simp_all add: shelf_eq)
  have "i < length shelf \<and> book_id (shelf ! i) = ''id-gamma'' \<and>
        pageCount (snd ?E ! i) = JNumber (Finite 80) \<and>
        readPage (snd ?E ! i) = JNumber (Finite 80) \<and>
        updatedAt (snd ?E ! i) = ''2024-02-01T00:00:00.000Z'' \<and>
        insertedAt (snd ?E ! i) = ''2024-01-02T00:00:00.000Z'' \<and>
        \<not> finished (snd ?E ! i)"
    using i old by (simp add: i1 pp example_payload_def)
  then have "\<exists>i. i < length shelf \<and> book_id (shelf ! i) = ''id-gamma'' \<and>
        pageCount (snd ?E ! i) = JNumber (Finite 80) \<and>
        readPage (snd ?E ! i) = JNumber (Finite 80) \<and>
        updatedAt (snd ?E ! i) = ''2024-02-01T00:00:00.000Z'' \<and>
        insertedAt (snd ?E ! i) = ''2024-01-02T00:00:00.000Z'' \<and>
        \<not> finished (snd ?E ! i)" by (rule exI [of _ i])
  with fe show ?thesis by simp
qed

text \<open>
  Claim C4, as the code has it. For a payload that is not \<^verbatim>\<open>null\<close> the two checks of
  the payload come before the search result is looked at: a payload without \<open>name\<close>, or
  with \<open>readPage\<close> greater than \<open>pageCount\<close>, is answered with status \<open>fail\<close> and code 400
  whatever the identifier, and the collection is unchanged. A payload that passes both,
  for an identifier no record has, is answered with code 404, and the collection is
  unchanged. On the payload \<^verbatim>\<open>null\<close> of a request without a body the handler throws,
  and the collection is unchanged.
\<close>

theorem editBookByIdHandler_validation_first:
  "(typeof (name p) = ''undefined'' \<longrightarrow>
      editBookByIdHandler rt now bookId (Some p) books =
        (Inr \<lparr> status = ''fail'',
               message = Some ''Gagal memperbarui buku. Mohon isi nama buku'',
               data = None, code = 400 \<rparr>, books)) \<and>
   (typeof (name p) \<noteq> ''undefined'' \<and> js_gt rt (readPage p) (pageCount p) = Inr True \<longrightarrow>
      editBookByIdHandler rt now bookId (Some p) books =
        (Inr \<lparr> status = ''fail'',
               message = Some
                 ''Gagal memperbarui buku. readPage tidak boleh lebih besar dari pageCount'',
               data = None, code = 400 \<rparr>, books)) \<and>
   (typeof (name p) \<noteq> ''undefined'' \<and> js_gt rt (readPage p) (pageCount p) = Inr False \<and>
    bookId \<notin> book_id ` set books \<longrightarrow>
      editBookByIdHandler rt now bookId (Some p) books =
        (Inr \<lparr> status = ''fail'',
               message = Some ''Gagal memperbarui buku. Id tidak ditemukan'',
               data = None, code = 404 \<rparr>, books)) \<and>
   editBookByIdHandler rt now bookId None books = (Inl TypeError, books)"
proof -
  have "bookId \<notin> book_id ` set books \<Longrightarrow> findIndex (\<lambda>b. book_id b = bookId) books = - 1"
    by (auto simp: findIndex_none)
  then show ?thesis by (auto simp: editBookByIdHandler_def Let_def)
qed

theorem editBookByIdHandler_validation_first_witness:
  "''id-none'' \<notin> book_id ` set shelf \<and>
   editBookByIdHandler node_runtime ''2024-02-01T00:00:00.000Z'' ''id-none''
     (Some (example_payload JUndefined (JNumber (Finite 50)) (JNumber (Finite 10))
        (JBoolean False)))
     shelf =
     (Inr \<lparr> status = ''fail'', message = Some ''Gagal memperbarui buku. Mohon isi nama buku'',
            data = None, code = 400 \<rparr>, shelf) \<and>
   editBookByIdHandler node_runtime ''2024-02-01T00:00:00.000Z'' ''id-none''
     (Some (example_payload (JString ''Beta'') (JNumber (Finite 50)) (JNumber (Finite 60))
        (JBoolean False)))
     shelf =
     (Inr \<lparr> status = ''fail'',
            message = Some
              ''Gagal memperbarui buku. readPage tidak boleh lebih besar dari pageCount'',
            data = None, code = 400 \<rparr>, shelf) \<and>
   editBookByIdHandler node_runtime ''2024-02-01T00:00:00.000Z'' ''id-none''
     (Some (example_payload (JString ''Beta'') (JNumber (Finite 50)) (JNumber (Finite 10))
        (JBoolean False)))
     shelf =
     (Inr \<lparr> status = ''fail'', message = Some ''Gagal memperbarui buku. Id tidak ditemukan'',
            data = None, code = 404 \<rparr>, shelf)"
proof -
  have g1: "js_gt node_runtime (JNumber (Finite 60)) (JNumber (Finite 50)) = Inr True"
    and g2: "js_gt node_runtime (JNumber (Finite 10)) (JNumber (Finite 50)) = Inr False"
    by (simp_all add: js_gt_def)
  have n: "''id-none'' \<notin> book_id ` set shelf" by (simp add: shelf_eq)
  note a = editBookByIdHandler_validation_first [of
      "example_payload JUndefined (JNumber (Finite 50)) (JNumber (Finite 10)) (JBoolean False)"
      node_runtime "''2024-02-01T00:00:00.000Z''" "''id-none''" shelf]
  note b = editBookByIdHandler_validation_first [of
      "example_payload (JString ''Beta'') (JNumber (Finite 50)) (JNumber (Finite 60))
         (JBoolean False)"
      node_runtime "''2024-02-01T00:00:00.000Z''" "''id-none''" shelf]
  note c = editBookByIdHandler_validation_first [of
      "example_payload (JString ''Beta'') (JNumber (Finite 50)) (JNumber (Finite 10))
         (JBoolean False)"
      node_runtime "''2024-02-01T00:00:00.000Z''" "''id-none''" shelf]
  show ?thesis
    using a b c g1 g2 n by (simp add: example_payload_def)
qed

text \<open>
  The claim as it is written fails on a request without a body: its payload is
  \<^verbatim>\<open>null\<close>, which has no \<open>name\<close>, and the handler throws instead of answering 400.
\<close>

theorem editBookByIdHandler_validation_first_counterexample:
  "editBookByIdHandler node_runtime ''2024-02-01T00:00:00.000Z'' ''id-none'' None shelf =
     (Inl TypeError, shelf)"
  by (simp add: editBookByIdHandler_def)

section \<open>Deleting a book\<close>

text \<open>
  Claim C7. Deleting an identifier that some record has removes one record, the first one
  with that identifier, and keeps the others in their order: the new collection is the
  old one without that position. Deleting an identifier no record has is answered with
  code 404 and leaves the collection unchanged.
\<close>

theorem deleteBookByIdHandler_removes_one:
  "(bookId \<in> book_id ` set books \<longrightarrow>
      (\<exists>i < length books.
         book_id (books ! i) = bookId \<and> (\<forall>j < i. book_id (books ! j) \<noteq> bookId) \<and>
         deleteBookByIdHandler bookId books =
           (\<lparr> status = ''success'', message = Some ''Buku berhasil dihapus'',
              data = None, code = 200 \<rparr>, take i books @ drop (Suc i) books))) \<and>
   (bookId \<notin> book_id ` set books \<longrightarrow>
      deleteBookByIdHandler bookId books =
        (\<lparr> status = ''fail'', message = Some ''Buku gagal dihapus. Id tidak ditemukan'',
           data = None, code = 404 \<rparr>, books))"
proof (cases "bookId \<in> book_id ` set books")
  case True
  let ?ix = "findIndex (\<lambda>b. book_id b = bookId) books"
  from True have ne: "?ix \<noteq> - 1" by (auto simp: findIndex_none)
  from findIndex_found [OF ne] have f: "nat ?ix < length books"
    "book_id (books ! nat ?ix) = bookId" "\<forall>j < nat ?ix. book_id (books ! j) \<noteq> bookId"
    by auto
  have "deleteBookByIdHandler bookId books =
          (\<lparr> status = ''success'', message = Some ''Buku berhasil dihapus'',
             data = None, code = 200 \<rparr>, take (nat ?ix) books @ drop (Suc (nat ?ix)) books)"
    using ne by (simp add: deleteBookByIdHandler_def Let_def splice1_def)
  with f True show ?thesis by blast
next
  case False
  then have "findIndex (\<lambda>b. book_id b = bookId) books = - 1"
    by (auto simp: findIndex_none)
  with False show ?thesis by (simp add: deleteBookByIdHandler_def Let_def)
qed

theorem deleteBookByIdHandler_removes_one_witness:
  "''id-alpha'' \<in> book_id ` set shelf \<and>
   (\<exists>i < length shelf. book_id (shelf ! i) = ''id-alpha'' \<and>
      deleteBookByIdHandler ''id-alpha'' shelf =
        (\<lparr> status = ''success'', message = Some ''Buku berhasil dihapus'',
           data = None, code = 200 \<rparr>, take i shelf @ drop (Suc i) shelf)) \<and>
   ''id-none'' \<notin> book_id ` set shelf \<and>
   deleteBookByIdHandler ''id-none'' shelf =
     (\<lparr> status = ''fail'', message = Some ''Buku gagal dihapus. Id tidak ditemukan'',
        data = None, code = 404 \<rparr>, shelf)"
proof -
  have a: "''id-alpha'' \<in> book_id ` set shelf" and n: "''id-none'' \<notin> book_id ` set shelf"
    by (simp_all add: shelf_eq)
  from deleteBookByIdHandler_removes_one [of "''id-alpha''" shelf] a
  have "\<exists>i < length shelf. book_id (shelf ! i) = ''id-alpha'' \<and>
      deleteBookByIdHandler ''id-alpha'' shelf =
        (\<lparr> status = ''success'', message = Some ''Buku berhasil dihapus'',
           data = None, code = 200 \<rparr>, take i shelf @ drop (Suc i) shelf)"
    by blast
  moreover from deleteBookByIdHandler_removes_one [of "''id-none''" shelf] n
  have "deleteBookByIdHandler ''id-none'' shelf =
     (\<lparr> status = ''fail'', message = Some ''Buku gagal dihapus. Id tidak ditemukan'',
        data = None, code = 404 \<rparr>, shelf)"
    by blast
  ultimately show ?thesis using a n by blast
qed

section \<open>Reading back a created book\<close>

text \<open>
  Claim C8. The identifier comes from \<^verbatim>\<open>nanoid\<close>, which is taken to return an
  identifier that no stored record has. Then, after a successful creation, looking up
  the returned identifier succeeds with code 200 and returns a record whose eight
  payload fields are the supplied ones, whose identifier is the generated one and whose
  two time stamps are the time of the creation.
\<close>

theorem getBookById_after_addBook:
  assumes "addBookHandler rt new_id now request_payload books = (Inr r, books')"
    and "code r = 201" and "new_id \<notin> book_id ` set books"
  shows "data r = Some (DataBookId new_id) \<and>
         (\<exists>p b. request_payload = Some p \<and>
               getBookByIdHandler new_id books' =
                 \<lparr> status = ''success'', message = None, data = Some (DataBook b),
                   code = 200 \<rparr> \<and>
               name b = name p \<and> year b = year p \<and> author b = author p \<and>
               summary b = summary p \<and> publisher b = publisher p \<and>
               pageCount b = pageCount p \<and> readPage b = readPage p \<and>
               reading b = reading p \<and>
               book_id b = new_id \<and> insertedAt b = now \<and> updatedAt b = now)"
proof -
  from assms have "fst (addBookHandler rt new_id now request_payload books) = Inr r" by simp
  from addBookHandler_created [OF this assms(2)] obtain p where p: "request_payload = Some p"
    and v: "typeof (name p) \<noteq> ''undefined''" "js_gt rt (readPage p) (pageCount p) = Inr False"
    by blast
  have old: "filter (\<lambda>n. book_id n = new_id) books = []"
    using assms(3) by (auto simp: filter_empty_conv)
  from assms(1) p addBookHandler_valid [OF v, of new_id now books] show ?thesis
    by (auto simp: getBookByIdHandler_def old)
qed

theorem getBookById_after_addBook_witness:
  "fst (addBookHandler node_runtime ''id-delta'' ''2024-01-03T00:00:00.000Z''
      (Some (example_payload (JString ''Delta'') (JNumber (Finite 20)) (JNumber (Finite 5))
         (JBoolean True))) shelf) =
     Inr \<lparr> status = ''success'', message = Some ''Buku berhasil ditambahkan'',
           data = Some (DataBookId ''id-delta''), code = 201 \<rparr> \<and>
   ''id-delta'' \<notin> book_id ` set shelf \<and>
   (\<exists>b. getBookByIdHandler ''id-delta''
           (snd (addBookHandler node_runtime ''id-delta'' ''2024-01-03T00:00:00.000Z''
              (Some (example_payload (JString ''Delta'') (JNumber (Finite 20))
                 (JNumber (Finite 5)) (JBoolean True))) shelf)) =
           \<lparr> status = ''success'', message = None, data = Some (DataBook b), code = 200 \<rparr> \<and>
         name b = JString ''Delta'' \<and> pageCount b = JNumber (Finite 20) \<and>
         readPage b = JNumber (Finite 5) \<and> book_id b = ''id-delta'' \<and>
         insertedAt b = ''2024-01-03T00:00:00.000Z'' \<and>
         updatedAt b = ''2024-01-03T00:00:00.000Z'')"
proof -
  let ?p = "example_payload (JString ''Delta'') (JNumber (Finite 20)) (JNumber (Finite 5))
         (JBoolean True)"
  let ?A = "addBookHandler node_runtime ''id-delta'' ''2024-01-03T00:00:00.000Z''
      (Some ?p) shelf"
  let ?r = "\<lparr> status = ''success'', message = Some ''Buku berhasil ditambahkan'',
           data = Some (DataBookId ''id-delta''), code = 201 \<rparr>"
  have fa: "fst ?A = Inr ?r"
    by (simp add: addBookHandler_def example_payload_def js_gt_def Let_def)
  have pa: "?A = (Inr ?r, snd ?A)" using fa by (simp add: prod_eq_iff)
  have c: "code ?r = 201" by simp
  have n: "''id-delta'' \<notin> book_id ` set shelf" by (simp add: shelf_eq)
  from getBookById_after_addBook [OF pa c n] obtain p b where
    p: "Some ?p = Some p" and
    b: "getBookByIdHandler ''id-delta'' (snd ?A) =
          \<lparr> status = ''success'', message = None, data = Some (DataBook b), code = 200 \<rparr>"
       "name b = name p" "pageCount b = pageCount p" "readPage b = readPage p"
       "book_id b = ''id-delta''" "insertedAt b = ''2024-01-03T00:00:00.000Z''"
       "updatedAt b = ''2024-01-03T00:00:00.000Z''"
    by blast
  from p have pp: "p = ?p" by simp
  have "getBookByIdHandler ''id-delta'' (snd ?A) =
          \<lparr> status = ''success'', message = None, data = Some (DataBook b), code = 200 \<rparr> \<and>
        name b = JString ''Delta'' \<and> pageCount b = JNumber (Finite 20) \<and>
        readPage b = JNumber (Finite 5) \<and> book_id b = ''id-delta'' \<and>
        insertedAt b = ''2024-01-03T00:00:00.000Z'' \<and>
        updatedAt b = ''2024-01-03T00:00:00.000Z''"
    using b by (simp add: pp example_payload_def)
  then have "\<exists>b. getBookByIdHandler ''id-delta'' (snd ?A) =
          \<lparr> status = ''success'', message = None, data = Some (DataBook b), code = 200 \<rparr> \<and>
        name b = JString ''Delta'' \<and> pageCount b = JNumber (Finite 20) \<and>
        readPage b = JNumber (Finite 5) \<and> book_id b = ''id-delta'' \<and>
        insertedAt b = ''2024-01-03T00:00:00.000Z'' \<and>
        updatedAt b = ''2024-01-03T00:00:00.000Z''" by (rule exI [of _ b])
  with fa n show ?thesis by simp
qed

section \<open>Listing the books\<close>

lemma array_filter_eq:
  "array_filter f xs =
     (if \<exists>x\<in>set xs. f x = Inl TypeError then Inl TypeError
      else Inr (filter (\<lambda>x. f x = Inr True) xs))"
  by (simp add: array_filter_throws array_filter_returns)

lemma list_response_eq:
  "list_response bs =
     \<lparr> status = ''success'', message = None,
       data = Some (DataBooks
         (map (\<lambda>b. BookSummary (book_id b) (name b) (publisher b)) bs)),
       code = 200 \<rparr>"
  by (simp add: list_response_def book_summary_of_def)

lemma getAllBooksHandler_empty:
  "getAllBooksHandler rt q [] =
     Inr \<lparr> status = ''success'', message = None, data = Some (DataBooks []), code = 200 \<rparr>"
  by (simp add: getAllBooksHandler_def)

lemma getAllBooksHandler_throws:
  assumes "listing_throws rt q books"
  shows "getAllBooksHandler rt q books = Inl TypeError"
proof -
  from assms have ne: "books \<noteq> []" by (simp add: listing_throws_def)
  from assms ne show ?thesis
    by (auto simp: getAllBooksHandler_def listing_throws_def array_filter_eq)
qed

lemma getAllBooksHandler_returns:
  assumes "\<not> listing_throws rt q books"
  shows "getAllBooksHandler rt q books =
     Inr (list_response
       (if typeof (query_finished q) \<noteq> ''undefined'' then
          filter (\<lambda>b. Number_equals rt (JBoolean (finished b)) (query_finished q) = Inr True)
            books
        else if typeof (query_reading q) \<noteq> ''undefined'' then
          filter (\<lambda>b. Number_equals rt (reading b) (query_reading q) = Inr True) books
        else if typeof (query_name q) \<noteq> ''undefined'' then
          filter (\<lambda>b. lowercase_includes rt (name b) (query_name q) = Inr True) books
        else books))"
proof (cases "books = []")
  case True
  then show ?thesis by (simp add: getAllBooksHandler_def list_response_def)
next
  case False
  with assms have
    n: "typeof (query_name q) \<noteq> ''undefined'' \<Longrightarrow>
        \<not> (\<exists>b\<in>set books. lowercase_includes rt (name b) (query_name q) = Inl TypeError)"
    and r: "typeof (query_reading q) \<noteq> ''undefined'' \<Longrightarrow>
        \<not> (\<exists>b\<in>set books. Number_equals rt (reading b) (query_reading q) = Inl TypeError)"
    and f: "typeof (query_finished q) \<noteq> ''undefined'' \<Longrightarrow>
        \<not> (\<exists>b\<in>set books.
              Number_equals rt (JBoolean (finished b)) (query_finished q) = Inl TypeError)"
    by (simp_all add: listing_throws_def)
  from False n r f show ?thesis
    by (simp add: getAllBooksHandler_def array_filter_eq)
qed

lemma listing_throws_fewer:
  assumes "\<not> listing_throws rt q books"
  shows "\<not> listing_throws rt (q\<lparr> query_name := JUndefined \<rparr>) books"
    and "\<not> listing_throws rt (q\<lparr> query_name := JUndefined, query_reading := JUndefined \<rparr>)
           books"
  using assms by (auto simp: listing_throws_def)

lemma not_listing_throws:
  assumes "typeof (query_name q) = ''undefined'' \<or>
           (typeof (query_name q) = ''string'' \<and>
            (\<forall>b\<in>set books. typeof (name b) = ''string''))"
    and "typeof (query_reading q) = ''undefined'' \<or>
         (is_primitive (query_reading q) \<and> (\<forall>b\<in>set books. is_primitive (reading b)))"
    and "typeof (query_finished q) = ''undefined'' \<or> is_primitive (query_finished q)"
  shows "\<not> listing_throws rt q books"
  using assms
  by (auto simp: listing_throws_def lowercase_includes_throws Number_equals_throws
      ToNumber_primitive)

text \<open>
  Claim C1, as the code has it. When more than one of the filters \<open>name\<close>, \<open>reading\<close>,
  \<open>finished\<close> is supplied, the last one supplied is \<open>finished\<close> if it is there and
  \<open>reading\<close> otherwise. Every supplied filter is run on the whole collection. When the
  test of none of them throws, the listing is the whole collection filtered by that last
  filter alone, and it is the answer the handler gives when the earlier filters are left
  out of the request. When the test of one of them throws, an earlier one included, the
  handler ends with a \<open>TypeError\<close>.
\<close>

theorem getAllBooksHandler_last_filter_wins:
  assumes "2 \<le> length (filter (\<lambda>v. typeof v \<noteq> ''undefined'')
                          [query_name q, query_reading q, query_finished q])"
  shows "getAllBooksHandler rt q books =
           (if listing_throws rt q books then Inl TypeError
            else Inr (list_response
              (filter (\<lambda>b. if typeof (query_finished q) \<noteq> ''undefined''
                           then Number_equals rt (JBoolean (finished b)) (query_finished q) =
                                  Inr True
                           else Number_equals rt (reading b) (query_reading q) = Inr True)
                 books))) \<and>
         (\<not> listing_throws rt q books \<longrightarrow>
            getAllBooksHandler rt q books =
              getAllBooksHandler rt
                (if typeof (query_finished q) \<noteq> ''undefined''
                 then q\<lparr> query_name := JUndefined, query_reading := JUndefined \<rparr>
                 else q\<lparr> query_name := JUndefined \<rparr>) books)"
proof (cases "listing_throws rt q books")
  case True
  then show ?thesis by (simp add: getAllBooksHandler_throws)
next
  case nt: False
  from assms have later: "typeof (query_reading q) \<noteq> ''undefined'' \<or>
      typeof (query_finished q) \<noteq> ''undefined''"
    by (auto split: if_splits)
  show ?thesis
  proof (cases "typeof (query_finished q) \<noteq> ''undefined''")
    case True
    let ?q' = "q\<lparr> query_name := JUndefined, query_reading := JUndefined \<rparr>"
    from nt have nt': "\<not> listing_throws rt ?q' books" by (rule listing_throws_fewer(2))
    from True nt show ?thesis
      by (simp add: getAllBooksHandler_returns [OF nt] getAllBooksHandler_returns [OF nt'])
  next
    case False
    let ?q' = "q\<lparr> query_name := JUndefined \<rparr>"
    from nt have nt': "\<not> listing_throws rt ?q' books" by (rule listing_throws_fewer(1))
    from False later have r: "typeof (query_reading q) \<noteq> ''undefined''" by simp
    from False r nt show ?thesis
      by (simp add: getAllBooksHandler_returns [OF nt] getAllBooksHandler_returns [OF nt'])
  qed
qed

text \<open>
  On the example collection: \<open>name=gam\<close> alone selects \<open>Gamma\<close>, \<open>reading=1\<close> alone
  selects \<open>Alpha\<close>. With both, the listing is \<open>Alpha\<close>, not the empty list.
\<close>

theorem getAllBooksHandler_last_filter_wins_witness:
  "2 \<le> length (filter (\<lambda>v. typeof v \<noteq> ''undefined'')
           [query_name \<lparr> query_name = JString ''gam'', query_reading = JString ''1'',
                         query_finished = JUndefined \<rparr>,
            query_reading \<lparr> query_name = JString ''gam'', query_reading = JString ''1'',
                            query_finished = JUndefined \<rparr>,
            query_finished \<lparr> query_name = JString ''gam'', query_reading = JString ''1'',
                             query_finished = JUndefined \<rparr>]) \<and>
   \<not> listing_throws node_runtime
       \<lparr> query_name = JString ''gam'', query_reading = JString ''1'',
         query_finished = JUndefined \<rparr> shelf \<and>
   getAllBooksHandler node_runtime
     \<lparr> query_name = JString ''gam'', query_reading = JString ''1'',
       query_finished = JUndefined \<rparr> shelf =
     Inr \<lparr> status = ''success'', message = None,
           data = Some (DataBooks
             [BookSummary ''id-alpha'' (JString ''Alpha'') (JString ''Publisher'')]),
           code = 200 \<rparr> \<and>
   getAllBooksHandler node_runtime
     \<lparr> query_name = JString ''gam'', query_reading = JString ''1'',
       query_finished = JUndefined \<rparr> shelf =
   getAllBooksHandler node_runtime
     \<lparr> query_name = JUndefined, query_reading = JString ''1'',
       query_finished = JUndefined \<rparr> shelf"
proof -
  let ?q = "\<lparr> query_name = JString ''gam'', query_reading = JString ''1'',
              query_finished = JUndefined \<rparr>"
  have h: "2 \<le> length (filter (\<lambda>v. typeof v \<noteq> ''undefined'')
                          [query_name ?q, query_reading ?q, query_finished ?q])"
    by simp
  have nt: "\<not> listing_throws node_runtime ?q shelf"
    by (rule not_listing_throws) (simp_all add: shelf_eq)
  note t = getAllBooksHandler_last_filter_wins [OF h, of node_runtime shelf]
  from t [THEN conjunct1] nt
  have "getAllBooksHandler node_runtime ?q shelf =
     Inr (list_response
       (filter (\<lambda>b. Number_equals node_runtime (reading b) (JString ''1'') = Inr True) shelf))"
    by simp
  also have "filter (\<lambda>b. Number_equals node_runtime (reading b) (JString ''1'') = Inr True)
      shelf = [shelf ! 0]"
    by (simp add: shelf_eq Number_equals_def ToNumber_def node_runtime_def num_equal_def)
  finally have l: "getAllBooksHandler node_runtime ?q shelf =
     Inr \<lparr> status = ''success'', message = None,
           data = Some (DataBooks
             [BookSummary ''id-alpha'' (JString ''Alpha'') (JString ''Publisher'')]),
           code = 200 \<rparr>"
    by (simp add: list_response_eq shelf_eq)
  from t [THEN conjunct2] nt
  have s: "getAllBooksHandler node_runtime ?q shelf =
     getAllBooksHandler node_runtime
       \<lparr> query_name = JUndefined, query_reading = JString ''1'',
         query_finished = JUndefined \<rparr> shelf"
    by simp
  from h nt l s show ?thesis by blast
qed

text \<open>
  The claim as it is written fails: a creation with the number 5 as \<open>name\<close> is stored
  (code 201); on that collection the request \<open>name=a&reading=1\<close> throws in the name
  filter, while \<open>reading=1\<close> alone is answered with the stored book. So the last filter
  alone does not decide what the call returns.
\<close>

theorem getAllBooksHandler_last_filter_wins_counterexample:
  "addBookHandler node_runtime ''id-five'' ''2024-01-05T00:00:00.000Z''
      (Some (example_payload (JNumber (Finite 5)) (JNumber (Finite 10)) (JNumber (Finite 1))
         (JBoolean True))) [] =
     (Inr \<lparr> status = ''success'', message = Some ''Buku berhasil ditambahkan'',
            data = Some (DataBookId ''id-five''), code = 201 \<rparr>,
      [\<lparr> name = JNumber (Finite 5), year = JNumber (Finite 2020), author = JString ''Author'',
         summary = JString ''Summary'', publisher = JString ''Publisher'',
         pageCount = JNumber (Finite 10), readPage = JNumber (Finite 1),
         reading = JBoolean True, book_id = ''id-five'', finished = False,
         insertedAt = ''2024-01-05T00:00:00.000Z'',
         updatedAt = ''2024-01-05T00:00:00.000Z'' \<rparr>]) \<and>
   getAllBooksHandler node_runtime
     \<lparr> query_name = JString ''a'', query_reading = JString ''1'', query_finished = JUndefined \<rparr>
     [\<lparr> name = JNumber (Finite 5), year = JNumber (Finite 2020), author = JString ''Author'',
        summary = JString ''Summary'', publisher = JString ''Publisher'',
        pageCount = JNumber (Finite 10), readPage = JNumber (Finite 1),
        reading = JBoolean True, book_id = ''id-five'', finished = False,
        insertedAt = ''2024-01-05T00:00:00.000Z'',
        updatedAt = ''2024-01-05T00:00:00.000Z'' \<rparr>] = Inl TypeError \<and>
   getAllBooksHandler node_runtime
     \<lparr> query_name = JUndefined, query_reading = JString ''1'', query_finished = JUndefined \<rparr>
     [\<lparr> name = JNumber (Finite 5), year = JNumber (Finite 2020), author = JString ''Author'',
        summary = JString ''Summary'', publisher = JString ''Publisher'',
        pageCount = JNumber (Finite 10), readPage = JNumber (Finite 1),
        reading = JBoolean True, book_id = ''id-five'', finished = False,
        insertedAt = ''2024-01-05T00:00:00.000Z'',
        updatedAt = ''2024-01-05T00:00:00.000Z'' \<rparr>] =
     Inr \<lparr> status = ''success'', message = None,
           data = Some (DataBooks
             [BookSummary ''id-five'' (JNumber (Finite 5)) (JString ''Publisher'')]),
           code = 200 \<rparr>"
  by (simp add: addBookHandler_def getAllBooksHandler_def example_payload_def js_gt_def
      Let_def num_equal_def lowercase_includes_def Number_equals_def ToNumber_def
      node_runtime_def list_response_def book_summary_of_def)

text \<open>
  Claim C9, as the code has it. A listing succeeds (status \<open>success\<close>, code 200) on every
  request on which the test of no supplied filter throws, and shows the books the last
  supplied filter selects from the whole collection. No test throws when the collection
  is empty, and when each filter is absent or is given values it can convert: for
  \<open>name\<close>, a string parameter and a string as the name of every stored book; for
  \<open>reading\<close>, a parameter and stored \<open>reading\<close> values that are primitive values (no
  arrays or objects); for \<open>finished\<close>, a parameter that is a primitive value. With no
  filter it shows every record, as \<open>{id, name, publisher}\<close>, in the order of the
  collection; on an empty collection it shows the empty list whatever the filters. When
  a test throws, the handler ends with a \<open>TypeError\<close> and gives no answer of its own.
\<close>

theorem getAllBooksHandler_succeeds:
  "(\<not> listing_throws rt q books \<longrightarrow>
      getAllBooksHandler rt q books =
        Inr \<lparr> status = ''success'', message = None,
              data = Some (DataBooks
                (map (\<lambda>b. BookSummary (book_id b) (name b) (publisher b))
                   (if typeof (query_finished q) \<noteq> ''undefined'' then
                      filter (\<lambda>b. Number_equals rt (JBoolean (finished b))
                                         (query_finished q) = Inr True) books
                    else if typeof (query_reading q) \<noteq> ''undefined'' then
                      filter (\<lambda>b. Number_equals rt (reading b) (query_reading q) =
                                         Inr True) books
                    else if typeof (query_name q) \<noteq> ''undefined'' then
                      filter (\<lambda>b. lowercase_includes rt (name b) (query_name q) =
                                         Inr True) books
                    else books))),
              code = 200 \<rparr>) \<and>
   ((typeof (query_name q) = ''undefined'' \<or>
     (typeof (query_name q) = ''string'' \<and> (\<forall>b\<in>set books. typeof (name b) = ''string''))) \<and>
    (typeof (query_reading q) = ''undefined'' \<or>
     (is_primitive (query_reading q) \<and> (\<forall>b\<in>set books. is_primitive (reading b)))) \<and>
    (typeof (query_finished q) = ''undefined'' \<or> is_primitive (query_finished q)) \<longrightarrow>
      \<not> listing_throws rt q books) \<and>
   (typeof (query_name q) = ''undefined'' \<and> typeof (query_reading q) = ''undefined'' \<and>
    typeof (query_finished q) = ''undefined'' \<longrightarrow>
      getAllBooksHandler rt q books =
        Inr \<lparr> status = ''success'', message = None,
              data = Some (DataBooks
                (map (\<lambda>b. BookSummary (book_id b) (name b) (publisher b)) books)),
              code = 200 \<rparr>) \<and>
   getAllBooksHandler rt q [] =
     Inr \<lparr> status = ''success'', message = None, data = Some (DataBooks []), code = 200 \<rparr> \<and>
   (listing_throws rt q books \<longrightarrow> getAllBooksHandler rt q books = Inl TypeError)"
proof (intro conjI impI)
  assume nt: "\<not> listing_throws rt q books"
  show "getAllBooksHandler rt q books =
        Inr \<lparr> status = ''success'', message = None,
              data = Some (DataBooks
                (map (\<lambda>b. BookSummary (book_id b) (name b) (publisher b))
                   (if typeof (query_finished q) \<noteq> ''undefined'' then
                      filter (\<lambda>b. Number_equals rt (JBoolean (finished b))
                                         (query_finished q) = Inr True) books
                    else if typeof (query_reading q) \<noteq> ''undefined'' then
                      filter (\<lambda>b. Number_equals rt (reading b) (query_reading q) =
                                         Inr True) books
                    else if typeof (query_name q) \<noteq> ''undefined'' then
                      filter (\<lambda>b. lowercase_includes rt (name b) (query_name q) =
                                         Inr True) books
                    else books))),
              code = 200 \<rparr>"
    unfolding getAllBooksHandler_returns [OF nt] list_response_eq ..
next
  assume "(typeof (query_name q) = ''undefined'' \<or>
     (typeof (query_name q) = ''string'' \<and> (\<forall>b\<in>set books. typeof (name b) = ''string''))) \<and>
    (typeof (query_reading q) = ''undefined'' \<or>
     (is_primitive (query_reading q) \<and> (\<forall>b\<in>set books. is_primitive (reading b)))) \<and>
    (typeof (query_finished q) = ''undefined'' \<or> is_primitive (query_finished q))"
  then show "\<not> listing_throws rt q books"
    by (intro not_listing_throws) simp_all
next
  assume none: "typeof (query_name q) = ''undefined'' \<and>
    typeof (query_reading q) = ''undefined'' \<and> typeof (query_finished q) = ''undefined''"
  then have nt: "\<not> listing_throws rt q books" by (simp add: listing_throws_def)
  from none show "getAllBooksHandler rt q books =
        Inr \<lparr> status = ''success'', message = None,
              data = Some (DataBooks
                (map (\<lambda>b. BookSummary (book_id b) (name b) (publisher b)) books)),
              code = 200 \<rparr>"
    by (simp add: getAllBooksHandler_returns [OF nt] list_response_eq)
next
  show "getAllBooksHandler rt q [] =
     Inr \<lparr> status = ''success'', message = None, data = Some (DataBooks []), code = 200 \<rparr>"
    by (rule getAllBooksHandler_empty)
next
  assume "listing_throws rt q books"
  then show "getAllBooksHandler rt q books = Inl TypeError"
    by (rule getAllBooksHandler_throws)
qed

text \<open>
  On the example collection with no filter; and with the filter \<open>reading=1\<close> on the
  collection a creation leaves whose \<open>reading\<close> is an object with an own property
  \<^verbatim>\<open>toString\<close>.
\<close>

theorem getAllBooksHandler_succeeds_witness:
  "\<not> listing_throws node_runtime
       \<lparr> query_name = JUndefined, query_reading = JUndefined, query_finished = JUndefined \<rparr>
       shelf \<and>
   getAllBooksHandler node_runtime
     \<lparr> query_name = JUndefined, query_reading = JUndefined, query_finished = JUndefined \<rparr>
     shelf =
     Inr \<lparr> status = ''success'', message = None,
           data = Some (DataBooks
             [BookSummary ''id-alpha'' (JString ''Alpha'') (JString ''Publisher''),
              BookSummary ''id-gamma'' (JString ''Gamma'') (JString ''Publisher'')]),
           code = 200 \<rparr> \<and>
   listing_throws node_runtime
     \<lparr> query_name = JUndefined, query_reading = JString ''1'', query_finished = JUndefined \<rparr>
     (snd (addBookHandler node_runtime ''id-zeta'' ''2024-01-06T00:00:00.000Z''
        (Some (example_payload (JString ''Zeta'') (JNumber (Finite 10)) (JNumber (Finite 1))
           (JObject [(''valueOf'', JNumber (Finite 1)), (''toString'', JNumber (Finite 1))])))
        [])) \<and>
   getAllBooksHandler node_runtime
     \<lparr> query_name = JUndefined, query_reading = JString ''1'', query_finished = JUndefined \<rparr>
     (snd (addBookHandler node_runtime ''id-zeta'' ''2024-01-06T00:00:00.000Z''
        (Some (example_payload (JString ''Zeta'') (JNumber (Finite 10)) (JNumber (Finite 1))
           (JObject [(''valueOf'', JNumber (Finite 1)), (''toString'', JNumber (Finite 1))])))
        [])) =
     Inl TypeError"
proof -
  let ?q0 = "\<lparr> query_name = JUndefined, query_reading = JUndefined,
               query_finished = JUndefined \<rparr>"
  let ?q1 = "\<lparr> query_name = JUndefined, query_reading = JString ''1'',
               query_finished = JUndefined \<rparr>"
  let ?bad = "(snd (addBookHandler node_runtime ''id-zeta'' ''2024-01-06T00:00:00.000Z''
        (Some (example_payload (JString ''Zeta'') (JNumber (Finite 10)) (JNumber (Finite 1))
           (JObject [(''valueOf'', JNumber (Finite 1)), (''toString'', JNumber (Finite 1))])))
        []))"
  note a = getAllBooksHandler_succeeds [of node_runtime ?q0 shelf]
  note b = getAllBooksHandler_succeeds [of node_runtime ?q1 ?bad]
  have hyp: "typeof (query_name ?q0) = ''undefined'' \<and>
      typeof (query_reading ?q0) = ''undefined'' \<and> typeof (query_finished ?q0) = ''undefined''"
    by simp
  have nt: "\<not> listing_throws node_runtime ?q0 shelf" by (simp add: listing_throws_def)
  from a [THEN conjunct2, THEN conjunct2, THEN conjunct1, THEN mp, OF hyp]
  have l: "getAllBooksHandler node_runtime ?q0 shelf =
     Inr \<lparr> status = ''success'', message = None,
           data = Some (DataBooks
             [BookSummary ''id-alpha'' (JString ''Alpha'') (JString ''Publisher''),
              BookSummary ''id-gamma'' (JString ''Gamma'') (JString ''Publisher'')]),
           code = 200 \<rparr>"
    by (simp add: shelf_eq)
  have t: "listing_throws node_runtime ?q1 ?bad"
    by (simp add: listing_throws_def Number_equals_def ToNumber_def has_own_property_def
        addBookHandler_def example_payload_def js_gt_def Let_def)
  from b [THEN conjunct2, THEN conjunct2, THEN conjunct2, THEN conjunct2, THEN mp, OF t]
  have e: "getAllBooksHandler node_runtime ?q1 ?bad = Inl TypeError" .
  from nt l t e show ?thesis by blast
qed

text \<open>
  The claim as it is written fails: a creation with the number 5 as \<open>name\<close> passes both
  checks and is stored, and a listing of that collection with a name filter throws.
\<close>

theorem getAllBooksHandler_succeeds_counterexample:
  "fst (addBookHandler node_runtime ''id-five'' ''2024-01-05T00:00:00.000Z''
      (Some (example_payload (JNumber (Finite 5)) (JNumber (Finite 10)) (JNumber (Finite 1))
         (JBoolean False))) []) =
     Inr \<lparr> status = ''success'', message = Some ''Buku berhasil ditambahkan'',
           data = Some (DataBookId ''id-five''), code = 201 \<rparr> \<and>
   getAllBooksHandler node_runtime
     \<lparr> query_name = JString ''a'', query_reading = JUndefined, query_finished = JUndefined \<rparr>
     (snd (addBookHandler node_runtime ''id-five'' ''2024-01-05T00:00:00.000Z''
        (Some (example_payload (JNumber (Finite 5)) (JNumber (Finite 10)) (JNumber (Finite 1))
           (JBoolean False))) [])) = Inl TypeError"
  by (simp add: addBookHandler_def getAllBooksHandler_def example_payload_def js_gt_def
      Let_def lowercase_includes_def)

end
